theory Spec2Isabelle
  imports Complex_Main "HOL-Library.Word"
begin

section \<open>Array helpers of the Mayor page\<close>

text \<open>
  \<^verbatim>\<open>Array.prototype.slice(start, end)\<close> for the non-negative integer indices that
  \<^verbatim>\<open>chunkArray\<close> passes: both indices are clamped to the length of the array and the
  elements from \<open>start\<close> up to, not including, \<open>end\<close> are copied.
\<close>

definition slice :: "'a list \<Rightarrow> nat \<Rightarrow> nat \<Rightarrow> 'a list" where
  "slice array start end = drop start (take end array)"

text \<open>
  \<^verbatim>\<open>
  function chunkArray<T>(array: T[], size: number): T[][] {
      const result = [];
      for (let i = 0; i < array.length; i += size) {
          result.push(array.slice(i, i + size));
      }
      return result;
  }
  \<close>
  The chunk size and the index are natural numbers. With \<open>size = 0\<close> and a non-empty
  array the loop of the source never ends, so the loop is a partial function: \<open>None\<close>
  stands for a call that does not return.
\<close>

partial_function (option) chunkArray_loop ::
  "'a list \<Rightarrow> nat \<Rightarrow> nat \<Rightarrow> 'a list list \<Rightarrow> 'a list list option" where
  "chunkArray_loop array sz i result =
     (if i < length array
      then chunkArray_loop array sz (i + sz) (result @ [slice array i (i + sz)])
      else Some result)"

definition chunkArray :: "'a list \<Rightarrow> nat \<Rightarrow> 'a list list option" where
  "chunkArray array sz = chunkArray_loop array sz 0 []"

section \<open>JavaScript values used by the pages\<close>

text \<open>
  A JavaScript string is a sequence of UTF-16 code units; \<^verbatim>\<open>length\<close> and \<^verbatim>\<open>===\<close> count and
  compare code units. \<open>js\<close> writes a string of ASCII characters as code units.
\<close>

type_synonym jsstring = "16 word list"

definition js :: "string \<Rightarrow> jsstring" where
  "js s = map of_char s"

text \<open>
  \<^verbatim>\<open>String.prototype.trim\<close> removes the white space and line terminator code units from
  both ends: U+0009 to U+000D, U+0020, U+00A0, U+1680, U+2000 to U+200A, U+2028,
  U+2029, U+202F, U+205F, U+3000 and U+FEFF.
\<close>

definition isWhiteSpace :: "16 word \<Rightarrow> bool" where
  "isWhiteSpace c \<longleftrightarrow>
     c = 0x0009 \<or> c = 0x000A \<or> c = 0x000B \<or> c = 0x000C \<or> c = 0x000D \<or> c = 0x0020
     \<or> c = 0x00A0 \<or> c = 0x1680 \<or> (0x2000 \<le> c \<and> c \<le> 0x200A)
     \<or> c = 0x2028 \<or> c = 0x2029 \<or> c = 0x202F \<or> c = 0x205F \<or> c = 0x3000
     \<or> c = 0xFEFF"

definition trim :: "jsstring \<Rightarrow> jsstring" where
  "trim s = rev (dropWhile isWhiteSpace (rev (dropWhile isWhiteSpace s)))"

text \<open>
  \<^verbatim>\<open>Number.prototype.toString\<close> on an integer: its decimal digits (U+0030 to U+0039),
  after a minus sign (U+002D) when it is negative.
\<close>

definition digit :: "nat \<Rightarrow> 16 word" where
  "digit d = of_nat (48 + d)"

fun digits :: "nat \<Rightarrow> jsstring" where
  "digits n = (if n < 10 then [digit n] else digits (n div 10) @ [digit (n mod 10)])"

declare digits.simps [simp del]

definition toString :: "int \<Rightarrow> jsstring" where
  "toString n = (if n < 0 then 0x002D # digits (nat (- n)) else digits (nat n))"

text \<open>
  The outcome of an awaited call: the promise resolves with a value or rejects with
  an error, of which the handlers read the message.
\<close>

datatype 'a awaited = Resolved 'a | Rejected jsstring

text \<open>
  A value of a Firestore document field, as the client writes it:
  \<^verbatim>\<open>firestore.FieldValue.serverTimestamp()\<close> and \<^verbatim>\<open>firestore.FieldValue.delete()\<close> are
  sentinels. The store below keeps a written value as it was written; the time the
  server puts in place of the timestamp sentinel is not part of the pages' code.
\<close>

datatype field_value = ServerTimestamp | DeleteField | StringValue jsstring

type_synonym document = "jsstring \<rightharpoonup> field_value"

text \<open>
  \<^verbatim>\<open>DocumentReference.update(fields)\<close>: every listed field is set, a field given the
  delete sentinel is removed, the other fields of the document stay.
\<close>

fun applyUpdates :: "(jsstring \<times> field_value) list \<Rightarrow> document \<Rightarrow> document" where
  "applyUpdates [] doc = doc"
| "applyUpdates ((k, v) # us) doc =
     applyUpdates us (if v = DeleteField then doc(k := None) else doc(k \<mapsto> v))"

section \<open>Settings page: the password change flow\<close>

datatype PasswordStep = request | verify_token | set_password

datatype message_type = success | error | warning

text \<open>A message shown to the user, \<^verbatim>\<open>{ type, text }\<close>.\<close>

record message_box =
  msg_type :: message_type
  msg_text :: jsstring

text \<open>
  \<^verbatim>\<open>profile.last_password_change\<close> as the restriction effect reads it: absent (null,
  undefined), a value from which no valid \<^verbatim>\<open>Date\<close> comes (\<^verbatim>\<open>getTime()\<close> is NaN, or the
  conversion throws), or a date, given by \<^verbatim>\<open>getTime()\<close> in milliseconds.
\<close>

datatype date_value = NoDate | InvalidDate | DateAt int

record Profile =
  profile_id :: jsstring
  email :: "jsstring option"
  last_password_change :: date_value
  special_password_token :: "jsstring option"

record settings_state =
  step :: PasswordStep
  verificationToken :: jsstring
  generatedToken :: jsstring
  devTokenDisplay :: "jsstring option"
  newPassword :: jsstring
  confirmPassword :: jsstring
  showNewPassword :: bool
  showConfirmPassword :: bool
  isUsingSpecialToken :: bool
  daysRemaining :: int
  isProcessing :: bool
  message :: "message_box option"

text \<open>The state of a freshly mounted page (the \<^verbatim>\<open>useState\<close> initial values).\<close>

definition initial_state :: settings_state where
  "initial_state =
     \<lparr>step = request, verificationToken = [], generatedToken = [], devTokenDisplay = None,
      newPassword = [], confirmPassword = [], showNewPassword = False,
      showConfirmPassword = False, isUsingSpecialToken = False, daysRemaining = 0,
      isProcessing = False, message = None\<rparr>"

definition MS_PER_DAY :: int where
  "MS_PER_DAY = 1000 * 60 * 60 * 24"

text \<open>
  The local time zone of the browser, given as the language's abstract operation
  \<open>LocalTZA(t, isUTC)\<close>: the offset of local time from UTC, in milliseconds, at the
  UTC time \<open>t\<close> when \<open>isUTC\<close> is true and at the local time \<open>t\<close> when it is false.
  \<open>LocalTime\<close> and \<open>UTC\<close> are the two conversions the \<^verbatim>\<open>Date\<close> methods use. Times are
  the integers \<^verbatim>\<open>getTime()\<close> gives (milliseconds since the epoch); \<open>TimeClip\<close> is the
  test every \<^verbatim>\<open>Date\<close> setter ends with: a time more than 8.64e15 ms from the epoch is
  not a date (\<open>None\<close> stands for the time value NaN).
\<close>

type_synonym time_zone = "int \<Rightarrow> bool \<Rightarrow> int"

definition LocalTime :: "time_zone \<Rightarrow> int \<Rightarrow> int" where
  "LocalTime tz t = t + tz t True"

definition UTC :: "time_zone \<Rightarrow> int \<Rightarrow> int" where
  "UTC tz t = t - tz t False"

definition TimeClip :: "int \<Rightarrow> int option" where
  "TimeClip t = (if \<bar>t\<bar> \<le> 8640000000000000 then Some t else None)"

text \<open>
  \<^verbatim>\<open>
  const nextDate = new Date(lastDate);
  nextDate.setDate(lastDate.getDate() + 30);
  \<close>
  \<^verbatim>\<open>getDate()\<close> is the day of the month of the local time, and \<^verbatim>\<open>setDate\<close> puts the new
  day number into the local date, keeping the local time of day, and converts back:
  the local time moves on by thirty days of 24 hours, which in UTC is thirty days
  more or less the change of the zone's offset in between.
\<close>

definition nextDateOf :: "time_zone \<Rightarrow> int \<Rightarrow> int option" where
  "nextDateOf tz lastDate = TimeClip (UTC tz (LocalTime tz lastDate + 30 * MS_PER_DAY))"

text \<open>
  The effect on \<^verbatim>\<open>profile.last_password_change\<close> (lines 102 to 131), which runs when
  the page is mounted and when that field of the profile changes; \<open>now\<close> is the clock
  reading \<^verbatim>\<open>new Date()\<close> of that run:
  \<^verbatim>\<open>
  const now = new Date();
  if (now < nextDate) {
      const diffTime = Math.abs(nextDate.getTime() - now.getTime());
      const diffDays = Math.ceil(diffTime / (1000 * 60 * 60 * 24));
      setDaysRemaining(diffDays);
  } else { setDaysRemaining(0); }
  \<close>
  A comparison with a \<open>nextDate\<close> that is not a date is false. The difference and the
  quotient are those of the integers (as the numbers of the source are, for two
  dates less than 2 to the power 53 ms apart).
\<close>

definition restrictionEffect ::
  "time_zone \<Rightarrow> Profile \<Rightarrow> int \<Rightarrow> settings_state \<Rightarrow> settings_state" where
  "restrictionEffect tz profile now st =
     (case last_password_change profile of
        NoDate \<Rightarrow> st
      | InvalidDate \<Rightarrow> st
      | DateAt lastDate \<Rightarrow>
          (case nextDateOf tz lastDate of
             None \<Rightarrow> st\<lparr>daysRemaining := 0\<rparr>
           | Some nextDate \<Rightarrow>
               if now < nextDate
               then (let diffTime = \<bar>nextDate - now\<bar>;
                         diffDays = \<lceil>real_of_int diffTime / real_of_int MS_PER_DAY\<rceil>
                     in st\<lparr>daysRemaining := diffDays\<rparr>)
               else st\<lparr>daysRemaining := 0\<rparr>))"

text \<open>What the awaited calls of \<^verbatim>\<open>handleRequestToken\<close> give.\<close>

record request_env =
  getUser :: "jsstring option awaited"
  sendEmail :: "jsstring option awaited"

text \<open>A string is truthy when it is present and not empty.\<close>

definition truthy :: "jsstring option \<Rightarrow> bool" where
  "truthy v = (case v of None \<Rightarrow> False | Some s \<Rightarrow> s \<noteq> [])"

text \<open>
  The \<^verbatim>\<open>try\<close> block of \<^verbatim>\<open>handleRequestToken\<close>: \<open>Inr\<close> the address the code was sent to,
  \<open>Inl\<close> the error that reaches the \<^verbatim>\<open>catch\<close>.
\<close>

definition trySendCode :: "Profile \<Rightarrow> request_env \<Rightarrow> jsstring + jsstring" where
  "trySendCode profile env =
     (case (if truthy (email profile) then Resolved (email profile) else getUser env) of
        Rejected e \<Rightarrow> Inl e
      | Resolved None \<Rightarrow> Inl (js ''No email address found on your profile.'')
      | Resolved (Some emailToSend) \<Rightarrow>
          if emailToSend = [] then Inl (js ''No email address found on your profile.'')
          else (case sendEmail env of
                  Rejected e \<Rightarrow> Inl e
                | Resolved (Some e) \<Rightarrow> Inl e
                | Resolved None \<Rightarrow> Inr emailToSend))"

definition rateLimitText :: "int \<Rightarrow> jsstring" where
  "rateLimitText days =
     (js ''Security Limit: You can only change your password once every 30 days. Please wait '')
     @ toString days @ (js '' more day(s).'')"

text \<open>
  \<^verbatim>\<open>handleRequestToken\<close> (lines 141 to 203). \<open>code\<close> is the integer
  \<^verbatim>\<open>Math.floor(100000 + Math.random() * 900000)\<close> of this call. The handler does not
  read the clock: its guard tests the \<open>daysRemaining\<close> that the effect has stored.
\<close>

definition handleRequestToken ::
  "Profile \<Rightarrow> int \<Rightarrow> request_env \<Rightarrow> settings_state \<Rightarrow> settings_state" where
  "handleRequestToken profile code env st0 =
     (let st = st0\<lparr>message := None, devTokenDisplay := None\<rparr> in
      if daysRemaining st > 0 \<and> \<not> isUsingSpecialToken st
      then st\<lparr>message := Some \<lparr>msg_type = error, msg_text = rateLimitText (daysRemaining st)\<rparr>\<rparr>
      else
        (let token = toString code;
             st = st\<lparr>isProcessing := True, generatedToken := token\<rparr>
         in case trySendCode profile env of
              Inr emailToSend \<Rightarrow>
                st\<lparr>message := Some \<lparr>msg_type = success,
                                     msg_text = (js ''Verification code sent to '') @ emailToSend\<rparr>,
                   step := verify_token, isProcessing := False\<rparr>
            | Inl err \<Rightarrow>
                st\<lparr>devTokenDisplay := Some token, step := verify_token,
                   isProcessing := False\<rparr>))"

text \<open>
  The quantities the rate limit is stated with: the number of days of 24 hours, as a
  real number, from the last password change to \<open>now\<close>; a request that is refused (the state is
  left as it was but for the error message); a request that goes on to the
  verification step with a code of its own.
\<close>

definition daysSince :: "int \<Rightarrow> int \<Rightarrow> real" where
  "daysSince lastDate now = real_of_int (now - lastDate) / real_of_int MS_PER_DAY"

definition rateLimited :: "settings_state \<Rightarrow> int \<Rightarrow> settings_state \<Rightarrow> bool" where
  "rateLimited st days st' \<longleftrightarrow>
     st' = st\<lparr>message := Some \<lparr>msg_type = error, msg_text = rateLimitText days\<rparr>,
              devTokenDisplay := None\<rparr>"

definition proceeds :: "int \<Rightarrow> settings_state \<Rightarrow> bool" where
  "proceeds code st' \<longleftrightarrow>
     step st' = verify_token \<and> generatedToken st' = toString code
     \<and> (case message st' of None \<Rightarrow> True | Some m \<Rightarrow> msg_type m = success)"

text \<open>The store behind the page: the profile documents and the user's credential.\<close>

record backend =
  profiles :: "jsstring \<rightharpoonup> document"
  password :: jsstring

datatype backend_call =
    AuthUpdateUser jsstring
  | ProfilesGet jsstring
  | ProfilesUpdate jsstring "(jsstring \<times> field_value) list"

text \<open>
  A field read from a document is truthy unless it is absent or the empty string.
\<close>

definition truthyField :: "field_value option \<Rightarrow> bool" where
  "truthyField v = (case v of None \<Rightarrow> False | Some (StringValue s) \<Rightarrow> s \<noteq> [] | Some _ \<Rightarrow> True)"

text \<open>
  \<^verbatim>\<open>handleVerifyToken\<close> (lines 205 to 235). \<open>getOutcome\<close> tells whether the read
  \<^verbatim>\<open>db.collection('profiles').doc(profile.id).get()\<close> resolves; when it does, the
  document is the one the store holds at that moment.
  \<^verbatim>\<open>
  if (isUsingSpecialToken) {
      const doc = await db.collection('profiles').doc(profile.id).get();
      const currentData = doc.data();
      if (!currentData?.special_password_token ||
          currentData.special_password_token !== verificationToken.trim()) {
          throw new Error("Invalid Administrative Token.");
      }
  } else {
      if (verificationToken.trim() !== generatedToken) {
          throw new Error("Invalid verification code.");
      }
  }
  setStep('set_password');
  \<close>
\<close>

definition handleVerifyToken ::
  "Profile \<Rightarrow> backend \<Rightarrow> unit awaited \<Rightarrow> settings_state \<Rightarrow> settings_state \<times> backend_call list" where
  "handleVerifyToken profile db getOutcome st0 =
     (let st = st0\<lparr>message := None, isProcessing := True\<rparr>;
          valid = st\<lparr>step := set_password, message := None, isProcessing := False\<rparr>;
          invalid = (\<lambda>err. st\<lparr>message := Some \<lparr>msg_type = error, msg_text = err\<rparr>,
                               isProcessing := False\<rparr>)
      in if isUsingSpecialToken st
         then (case getOutcome of
                 Rejected err \<Rightarrow> (invalid err, [ProfilesGet (profile_id profile)])
               | Resolved _ \<Rightarrow>
                   (let currentData = profiles db (profile_id profile);
                        token = (case currentData of None \<Rightarrow> None
                                 | Some doc \<Rightarrow> doc (js ''special_password_token''))
                    in if \<not> truthyField token
                          \<or> token \<noteq> Some (StringValue (trim (verificationToken st)))
                       then (invalid (js ''Invalid Administrative Token.''),
                             [ProfilesGet (profile_id profile)])
                       else (valid, [ProfilesGet (profile_id profile)])))
         else if trim (verificationToken st) \<noteq> generatedToken st
              then (invalid (js ''Invalid verification code.''), [])
              else (valid, []))"

text \<open>The administrative token the store holds for the profile, if any.\<close>

definition persistedToken :: "backend \<Rightarrow> Profile \<Rightarrow> field_value option" where
  "persistedToken db profile =
     (case profiles db (profile_id profile) of None \<Rightarrow> None
      | Some doc \<Rightarrow> doc (js ''special_password_token''))"

text \<open>
  \<^verbatim>\<open>DocumentReference.update\<close> on the profiles collection: the call rejects when the
  network or the server fails it, or when there is no such document; otherwise the
  fields are changed in one step.
\<close>

definition firestoreUpdate ::
  "unit awaited \<Rightarrow> jsstring \<Rightarrow> (jsstring \<times> field_value) list \<Rightarrow> backend \<Rightarrow> backend awaited" where
  "firestoreUpdate outcome key updates db =
     (case outcome of
        Rejected err \<Rightarrow> Rejected err
      | Resolved _ \<Rightarrow>
          (case profiles db key of
             None \<Rightarrow> Rejected (js ''No document to update'')
           | Some doc \<Rightarrow> Resolved (db\<lparr>profiles := (profiles db)(key \<mapsto> applyUpdates updates doc)\<rparr>)))"

text \<open>What the awaited calls of \<^verbatim>\<open>handlePasswordUpdate\<close> give.\<close>

record update_env =
  updateUser :: "jsstring option awaited"
  profileUpdate :: "unit awaited"

datatype local_value = DateValue int | Null

record update_result =
  ui :: settings_state
  store :: backend
  calls :: "backend_call list"
  profileUpdates :: "(jsstring \<times> local_value) list option"

text \<open>
  \<^verbatim>\<open>handlePasswordUpdate\<close> (lines 237 to 300). \<open>now\<close> is the client's \<^verbatim>\<open>new Date()\<close>;
  \<open>dbUpdates\<close> and \<open>localUpdates\<close> are the two objects the handler builds, the
  second being what \<^verbatim>\<open>onProfileUpdate\<close> is called with. A call to the auth provider
  that fails leaves the credential as it was.
\<close>

definition dbUpdates :: "bool \<Rightarrow> (jsstring \<times> field_value) list" where
  "dbUpdates usingSpecialToken =
     ((js ''last_password_change''), ServerTimestamp)
     # (if usingSpecialToken then [((js ''special_password_token''), DeleteField)] else [])"

definition localUpdates :: "int \<Rightarrow> bool \<Rightarrow> (jsstring \<times> local_value) list" where
  "localUpdates now usingSpecialToken =
     ((js ''last_password_change''), DateValue now)
     # (if usingSpecialToken then [((js ''special_password_token''), Null)] else [])"

definition handlePasswordUpdate ::
  "Profile \<Rightarrow> int \<Rightarrow> update_env \<Rightarrow> backend \<Rightarrow> settings_state \<Rightarrow> update_result" where
  "handlePasswordUpdate profile now env db st0 =
     (let st = st0\<lparr>message := None\<rparr> in
      if newPassword st \<noteq> confirmPassword st
      then \<lparr>ui = st\<lparr>message := Some \<lparr>msg_type = error, msg_text = (js ''Passwords do not match.'')\<rparr>\<rparr>,
            store = db, calls = [], profileUpdates = None\<rparr>
      else if length (newPassword st) < 6
      then \<lparr>ui = st\<lparr>message := Some \<lparr>msg_type = error,
                                       msg_text = (js ''Password must be at least 6 characters.'')\<rparr>\<rparr>,
            store = db, calls = [], profileUpdates = None\<rparr>
      else
        (let st = st\<lparr>isProcessing := True\<rparr>;
             failed = (\<lambda>err db' cs.
               \<lparr>ui = st\<lparr>message := Some \<lparr>msg_type = error,
                                          msg_text = (if err = [] then (js ''Failed to update password.'')
                                                      else err)\<rparr>,
                        isProcessing := False\<rparr>,
                store = db', calls = cs, profileUpdates = None\<rparr>);
             authCall = AuthUpdateUser (newPassword st)
         in case updateUser env of
              Rejected err \<Rightarrow> failed err db [authCall]
            | Resolved (Some err) \<Rightarrow> failed err db [authCall]
            | Resolved None \<Rightarrow>
                (let db1 = db\<lparr>password := newPassword st\<rparr>;
                     updates = dbUpdates (isUsingSpecialToken st);
                     cs = [authCall, ProfilesUpdate (profile_id profile) updates]
                 in case firestoreUpdate (profileUpdate env) (profile_id profile) updates db1 of
                      Rejected err \<Rightarrow> failed err db1 cs
                    | Resolved db2 \<Rightarrow>
                        \<lparr>ui = st\<lparr>message := Some \<lparr>msg_type = success,
                             msg_text = (js ''Password updated successfully. You are now restricted from changing it for 30 days.'')\<rparr>,
                            step := request, newPassword := [], confirmPassword := [],
                            verificationToken := [], generatedToken := [],
                            devTokenDisplay := None, isUsingSpecialToken := False,
                            showNewPassword := False, showConfirmPassword := False,
                            isProcessing := False\<rparr>,
                         store = db2, calls = cs,
                         profileUpdates = Some (localUpdates now (isUsingSpecialToken st))\<rparr>)))"

text \<open>The calls that write to the profile document.\<close>

fun isProfileWrite :: "backend_call \<Rightarrow> bool" where
  "isProfileWrite (ProfilesUpdate key updates) = True"
| "isProfileWrite (AuthUpdateUser pw) = False"
| "isProfileWrite (ProfilesGet key) = False"

section \<open>Monitor page: marking attendance\<close>

datatype AttendanceStatus = Present | Absent | Late | Excused

text \<open>
  The \<open>timestamp\<close> of a record: the server-timestamp sentinel in what is written to
  the store, the placeholder \<^verbatim>\<open>{ toDate: () => new Date() }\<close> in the page's own copy.
\<close>

datatype record_timestamp = ServerSentinel | LocalPlaceholder

record AttendanceRecord =
  record_id :: "jsstring option"
  userId :: jsstring
  date :: jsstring
  status :: AttendanceStatus
  markedBy :: jsstring
  timestamp :: record_timestamp

text \<open>
  The state of the page that the two handlers read and set (\<open>pageError\<close> is the
  source's \<open>error\<close>), and the attendance collection of the store, keyed by document
  id.
\<close>

record monitor_state =
  attendanceData :: "jsstring \<rightharpoonup> AttendanceRecord"
  pageError :: "jsstring option"
  isBulkUpdating :: bool

type_synonym attendance_collection = "jsstring \<rightharpoonup> AttendanceRecord"

type_synonym write_batch = "(jsstring \<times> AttendanceRecord) list"

text \<open>
  \<^verbatim>\<open>batch.commit()\<close>: all the writes of the batch are applied, in the order they were
  added, or, when the commit rejects, none is.
\<close>

definition commitBatch ::
  "unit awaited \<Rightarrow> write_batch \<Rightarrow> attendance_collection \<Rightarrow> attendance_collection awaited" where
  "commitBatch outcome batch coll =
     (case outcome of
        Rejected err \<Rightarrow> Rejected err
      | Resolved _ \<Rightarrow> Resolved (foldl (\<lambda>m (key, data). m(key \<mapsto> data)) coll batch))"

definition attendanceDocId :: "jsstring \<Rightarrow> jsstring \<Rightarrow> jsstring" where
  "attendanceDocId selectedDate uid = selectedDate @ (js ''_'') @ uid"

definition newRecord :: "jsstring \<Rightarrow> jsstring \<Rightarrow> jsstring \<Rightarrow> AttendanceStatus \<Rightarrow> AttendanceRecord" where
  "newRecord monitorId selectedDate uid newStatus =
     \<lparr>record_id = None, userId = uid, date = selectedDate, status = newStatus,
      markedBy = monitorId, timestamp = ServerSentinel\<rparr>"

definition optimisticRecord ::
  "jsstring \<Rightarrow> jsstring \<Rightarrow> jsstring \<Rightarrow> AttendanceStatus \<Rightarrow> AttendanceRecord" where
  "optimisticRecord monitorId selectedDate uid newStatus =
     (newRecord monitorId selectedDate uid newStatus)
       \<lparr>record_id := Some (attendanceDocId selectedDate uid), timestamp := LocalPlaceholder\<rparr>"

text \<open>
  \<^verbatim>\<open>handleStatusUpdate\<close> (lines 369 to 397); \<open>monitorId\<close> is \<^verbatim>\<open>user.id\<close> and \<open>setOutcome\<close>
  the outcome of the awaited \<^verbatim>\<open>set\<close>.
\<close>

definition handleStatusUpdate ::
  "jsstring \<Rightarrow> jsstring \<Rightarrow> unit awaited \<Rightarrow> jsstring \<Rightarrow> AttendanceStatus
     \<Rightarrow> attendance_collection \<Rightarrow> monitor_state \<Rightarrow> monitor_state \<times> attendance_collection" where
  "handleStatusUpdate monitorId selectedDate setOutcome targetUserId newStatus coll page =
     (let prevData = attendanceData page;
          docId = attendanceDocId selectedDate targetUserId;
          page1 = page\<lparr>attendanceData :=
                    (attendanceData page)(targetUserId \<mapsto>
                       optimisticRecord monitorId selectedDate targetUserId newStatus)\<rparr>
      in case setOutcome of
           Resolved _ \<Rightarrow> (page1, coll(docId \<mapsto> newRecord monitorId selectedDate targetUserId newStatus))
         | Rejected err \<Rightarrow>
             (page1\<lparr>pageError := Some (js ''Failed to save attendance update.''),
                    attendanceData := prevData\<rparr>, coll))"

text \<open>
  \<^verbatim>\<open>handleBulkStatusUpdate\<close> (lines 399 to 447). \<open>filteredProfiles\<close> is the memoised
  list of visible rows. The body of the \<^verbatim>\<open>forEach\<close> adds one write to the batch and one
  entry to the new attendance map:
  \<^verbatim>\<open>
  const batch = db.batch();
  filteredProfiles.forEach(profile => {
      const docId = `${selectedDate}_${profile.id}`;
      const record = { userId: profile.id, date: selectedDate, status,
                       markedBy: user.id, timestamp: timestamp };
      batch.set(db.collection('attendance').doc(docId), record);
      newAttendanceMap[profile.id] = { ...record, id: docId, timestamp: {...} };
  });
  setAttendanceData(newAttendanceMap);
  try { await batch.commit(); }
  catch (err) { setError("Failed to update all records. Please try again.");
                setAttendanceData(prevData); }
  \<close>
  \<open>commits\<close> lists the batches on which \<^verbatim>\<open>commit()\<close> was called, in order.
\<close>

definition bulkStep ::
  "jsstring \<Rightarrow> jsstring \<Rightarrow> AttendanceStatus
     \<Rightarrow> write_batch \<times> (jsstring \<rightharpoonup> AttendanceRecord) \<Rightarrow> Profile
     \<Rightarrow> write_batch \<times> (jsstring \<rightharpoonup> AttendanceRecord)" where
  "bulkStep monitorId selectedDate newStatus acc profile =
     (case acc of (batch, newAttendanceMap) \<Rightarrow>
        (batch @ [(attendanceDocId selectedDate (profile_id profile),
                   newRecord monitorId selectedDate (profile_id profile) newStatus)],
         newAttendanceMap(profile_id profile \<mapsto>
           optimisticRecord monitorId selectedDate (profile_id profile) newStatus)))"

record bulk_result =
  page_after :: monitor_state
  attendance_after :: attendance_collection
  commits :: "write_batch list"

definition handleBulkStatusUpdate ::
  "jsstring \<Rightarrow> jsstring \<Rightarrow> Profile list \<Rightarrow> unit awaited \<Rightarrow> AttendanceStatus
     \<Rightarrow> attendance_collection \<Rightarrow> monitor_state \<Rightarrow> bulk_result" where
  "handleBulkStatusUpdate monitorId selectedDate filteredProfiles commitResult newStatus coll page =
     (if length filteredProfiles = 0
      then \<lparr>page_after = page, attendance_after = coll, commits = []\<rparr>
      else
        (let page1 = page\<lparr>isBulkUpdating := True, pageError := None\<rparr>;
             prevData = attendanceData page;
             (batch, newAttendanceMap) =
               foldl (bulkStep monitorId selectedDate newStatus) ([], attendanceData page)
                 filteredProfiles;
             page2 = page1\<lparr>attendanceData := newAttendanceMap\<rparr>
         in case commitBatch commitResult batch coll of
              Resolved coll' \<Rightarrow>
                \<lparr>page_after = page2\<lparr>isBulkUpdating := False\<rparr>, attendance_after = coll',
                 commits = [batch]\<rparr>
            | Rejected err \<Rightarrow>
                \<lparr>page_after = page2\<lparr>pageError := Some (js ''Failed to update all records. Please try again.''),
                                      attendanceData := prevData, isBulkUpdating := False\<rparr>,
                 attendance_after = coll, commits = [batch]\<rparr>))"

section \<open>Mayor page: broadcasting a notification\<close>

text \<open>
  The object \<^verbatim>\<open>notificationData\<close> and a notification document,
  \<^verbatim>\<open>{ ...notificationData, user_id: uid }\<close>. The field names carry a prefix; \<open>created_at\<close>
  is the value the client writes.
\<close>

record notificationData =
  n_title :: jsstring
  n_message :: jsstring
  n_is_read :: bool
  n_notification_type :: jsstring
  n_created_at :: field_value

record notification =
  d_title :: jsstring
  d_message :: jsstring
  d_is_read :: bool
  d_notification_type :: jsstring
  d_created_at :: field_value
  d_user_id :: jsstring

definition withUserId :: "notificationData \<Rightarrow> jsstring \<Rightarrow> notification" where
  "withUserId nd uid =
     \<lparr>d_title = n_title nd, d_message = n_message nd, d_is_read = n_is_read nd,
      d_notification_type = n_notification_type nd, d_created_at = n_created_at nd,
      d_user_id = uid\<rparr>"

text \<open>
  The state of the broadcast tab (\<open>messageInput\<close> and \<open>broadcastStatus\<close> are the
  source's \<open>message\<close> and \<open>status\<close>).
\<close>

record broadcast_state =
  title :: jsstring
  messageInput :: jsstring
  isSending :: bool
  broadcastStatus :: "message_box option"
  isConfirmOpen :: bool

text \<open>
  What the awaited calls of \<^verbatim>\<open>executeBroadcast\<close> give: the ids of the documents of
  the profiles snapshot, and the outcome of each \<^verbatim>\<open>batch.commit()\<close>, counted from 0.
\<close>

record broadcast_env =
  usersSnap :: "jsstring list awaited"
  commitOutcome :: "nat \<Rightarrow> unit awaited"

text \<open>
  The title prefix: the loudspeaker sign U+1F4E2 (a surrogate pair of two code units)
  and a space.
\<close>

definition loudspeaker :: jsstring where
  "loudspeaker = [0xD83D, 0xDCE2, 0x0020]"

text \<open>
  The body of the inner \<^verbatim>\<open>forEach\<close>: one \<^verbatim>\<open>set\<close> on a document with a fresh id is added
  to the batch and the counter goes up by one.
\<close>

definition addToBatch ::
  "notificationData \<Rightarrow> notification list \<times> nat \<Rightarrow> jsstring \<Rightarrow> notification list \<times> nat" where
  "addToBatch nd acc uid = (case acc of (batch, count) \<Rightarrow> (batch @ [withUserId nd uid], count + 1))"

record broadcast_run =
  created :: "notification list"
  count :: nat
  batches :: "notification list list"
  failure :: "jsstring option"

text \<open>
  The loop over the chunks: a batch is filled and committed, the next chunk starts
  only when the commit has resolved, and a commit that rejects ends the loop.
  \<open>created\<close> are the documents of the committed batches, \<open>batches\<close> the batches on
  which \<^verbatim>\<open>commit()\<close> was called.
\<close>

fun commitChunks ::
  "notificationData \<Rightarrow> (nat \<Rightarrow> unit awaited) \<Rightarrow> nat \<Rightarrow> jsstring list list \<Rightarrow> broadcast_run
     \<Rightarrow> broadcast_run" where
  "commitChunks nd outcome k [] run = run"
| "commitChunks nd outcome k (chunk # chunks) run =
     (case foldl (addToBatch nd) ([], count run) chunk of (batch, count') \<Rightarrow>
        (case outcome k of
           Rejected err \<Rightarrow>
             run\<lparr>count := count', batches := batches run @ [batch], failure := Some err\<rparr>
         | Resolved _ \<Rightarrow>
             commitChunks nd outcome (Suc k) chunks
               (run\<lparr>created := created run @ batch, count := count',
                    batches := batches run @ [batch]\<rparr>)))"

declare commitChunks.simps(2) [simp del]

record broadcast_result =
  tab :: broadcast_state
  notifications :: "notification list"
  committed :: "notification list list"

text \<open>
  The object \<^verbatim>\<open>notificationData\<close> of a broadcast, and the two ways the handler ends:
  the \<^verbatim>\<open>catch\<close> block, and the end of the \<^verbatim>\<open>try\<close> block (each followed by \<^verbatim>\<open>finally\<close>).
\<close>

definition announcement :: "broadcast_state \<Rightarrow> notificationData" where
  "announcement st =
     \<lparr>n_title = loudspeaker @ title st, n_message = messageInput st, n_is_read = False,
      n_notification_type = (js ''announcement''), n_created_at = ServerTimestamp\<rparr>"

definition broadcastFailed :: "broadcast_state \<Rightarrow> jsstring \<Rightarrow> broadcast_state" where
  "broadcastFailed st err =
     st\<lparr>broadcastStatus := Some \<lparr>msg_type = error,
           msg_text = (js ''Broadcast failed. '') @ (if err = [] then (js ''Unknown error'') else err)\<rparr>,
        isSending := False\<rparr>"

definition broadcastDone :: "broadcast_state \<Rightarrow> nat \<Rightarrow> broadcast_state" where
  "broadcastDone st sentCount =
     st\<lparr>broadcastStatus := Some \<lparr>msg_type = success,
           msg_text = (js ''Broadcast successfully sent to '') @ toString (int sentCount)
             @ (js '' users.'')\<rparr>,
        title := [], messageInput := [], isSending := False\<rparr>"

text \<open>
  \<^verbatim>\<open>executeBroadcast\<close> (lines 764 to 818), on the notifications collection \<open>coll\<close>
  (the documents in the order they were created). The result is \<open>None\<close> when the
  call does not return.
\<close>

definition executeBroadcast ::
  "broadcast_env \<Rightarrow> notification list \<Rightarrow> broadcast_state \<Rightarrow> broadcast_result option" where
  "executeBroadcast env coll st0 =
     (let st = st0\<lparr>isConfirmOpen := False, isSending := True, broadcastStatus := None\<rparr>
      in case usersSnap env of
           Rejected err \<Rightarrow>
             Some \<lparr>tab = broadcastFailed st err, notifications = coll, committed = []\<rparr>
         | Resolved userIds \<Rightarrow>
             if userIds = []
             then Some \<lparr>tab = broadcastFailed st (js ''No users found to broadcast to.''),
                        notifications = coll, committed = []\<rparr>
             else
               (case chunkArray userIds 450 of
                  None \<Rightarrow> None
                | Some chunks \<Rightarrow>
                    (let run = commitChunks (announcement st) (commitOutcome env) 0 chunks
                                 \<lparr>created = [], count = 0, batches = [], failure = None\<rparr>
                     in Some \<lparr>tab = (case failure run of
                                       Some err \<Rightarrow> broadcastFailed st err
                                     | None \<Rightarrow> broadcastDone st (count run)),
                              notifications = coll @ created run,
                              committed = batches run\<rparr>)))"

text \<open>A broadcast has been sent when the tab shows the success status.\<close>

definition broadcastSent :: "broadcast_result \<Rightarrow> bool" where
  "broadcastSent r \<longleftrightarrow>
     (case broadcastStatus (tab r) of None \<Rightarrow> False | Some m \<Rightarrow> msg_type m = success)"

section \<open>Example values\<close>

definition exampleProfile :: Profile where
  "exampleProfile =
     \<lparr>profile_id = (js ''u1''), email = Some (js ''a@b.c''),
      last_password_change = DateAt 1729008000000, special_password_token = None\<rparr>"

text \<open>
  The profile's last change is 2024-10-15 16:00 UTC. Two time zones: one eight hours
  ahead of UTC all year, and one four hours behind UTC until 2024-11-03 06:00 UTC
  and five hours behind from then on (of a local time that occurs twice, the
  earlier is meant).
\<close>

definition manila :: time_zone where
  "manila = (\<lambda>t isUTC. 28800000)"

definition newYork :: time_zone where
  "newYork = (\<lambda>t isUTC.
     if isUTC then (if t < 1730613600000 then - 14400000 else - 18000000)
     else (if t < 1730599200000 then - 14400000 else - 18000000))"

definition mailerUp :: request_env where
  "mailerUp = \<lparr>getUser = Resolved None, sendEmail = Resolved None\<rparr>"

definition mailerDown :: request_env where
  "mailerDown = \<lparr>getUser = Resolved None, sendEmail = Rejected (js ''Failed to fetch'')\<rparr>"

definition paddedCodeSession :: settings_state where
  "paddedCodeSession =
     initial_state\<lparr>step := verify_token, generatedToken := (js ''123456''),
                    verificationToken := (js '' 123456'')\<rparr>"

text \<open>The same entries with an em space (U+2003), as a text field can hold it.\<close>

definition emSpaceCodeSession :: settings_state where
  "emSpaceCodeSession =
     initial_state\<lparr>step := verify_token, generatedToken := js ''123456'',
                    verificationToken := 0x2003 # js ''123456''\<rparr>"

definition emSpaceTokenSession :: settings_state where
  "emSpaceTokenSession =
     initial_state\<lparr>step := verify_token, isUsingSpecialToken := True,
                    verificationToken := js ''sk_live_A1'' @ [0x2003]\<rparr>"

definition exampleStore :: backend where
  "exampleStore =
     \<lparr>profiles = [(js ''u1'') \<mapsto> [(js ''special_password_token'') \<mapsto> StringValue (js ''sk_live_A1'')]],
      password = (js ''old-secret'')\<rparr>"

definition reissuedStore :: backend where
  "reissuedStore =
     \<lparr>profiles = [(js ''u1'') \<mapsto> [(js ''special_password_token'') \<mapsto> StringValue (js ''sk_live_B2'')]],
      password = (js ''old-secret'')\<rparr>"

definition paddedTokenSession :: settings_state where
  "paddedTokenSession =
     initial_state\<lparr>step := verify_token, isUsingSpecialToken := True,
                    verificationToken := (js ''sk_live_A1 '')\<rparr>"

definition tokenSession :: settings_state where
  "tokenSession =
     initial_state\<lparr>step := verify_token, isUsingSpecialToken := True,
                    verificationToken := (js ''sk_live_A1'')\<rparr>"

definition bypassPasswordSession :: settings_state where
  "bypassPasswordSession =
     initial_state\<lparr>step := set_password, isUsingSpecialToken := True,
                    verificationToken := (js ''sk_live_A1''), newPassword := (js ''hunter22''),
                    confirmPassword := (js ''hunter22'')\<rparr>"

definition backendUp :: update_env where
  "backendUp = \<lparr>updateUser = Resolved None, profileUpdate = Resolved ()\<rparr>"

definition mismatchSession :: settings_state where
  "mismatchSession =
     initial_state\<lparr>step := set_password, newPassword := (js ''abc''), confirmPassword := (js ''abd'')\<rparr>"

definition weakSession :: settings_state where
  "weakSession =
     initial_state\<lparr>step := set_password, newPassword := (js ''abcde''), confirmPassword := (js ''abcde'')\<rparr>"

definition rowProfile :: "nat \<Rightarrow> Profile" where
  "rowProfile n =
     \<lparr>profile_id = js ''s'' @ digits n, email = None, last_password_change = NoDate,
      special_password_token = None\<rparr>"

definition emptyPage :: monitor_state where
  "emptyPage = \<lparr>attendanceData = Map.empty, pageError = None, isBulkUpdating = False\<rparr>"

definition markedPage :: monitor_state where
  "markedPage =
     \<lparr>attendanceData = [(js ''s1'') \<mapsto> optimisticRecord (js ''m0'') (js ''2024-01-15'') (js ''s1'') Present],
      pageError = None, isBulkUpdating = False\<rparr>"



section \<open>Properties of chunkArray\<close>

lemma slice_take_drop: "slice array i (i + sz) = take sz (drop i array)"
  by (simp add: slice_def drop_take)

lemma chunkArray_loop_returns:
  assumes "0 < sz"
  shows "\<exists>cs. chunkArray_loop array sz i result = Some (result @ cs)
           \<and> concat cs = drop i array
           \<and> list_all (\<lambda>c. 0 < length c \<and> length c \<le> sz) cs
           \<and> list_all (\<lambda>c. length c = sz) (butlast cs)
           \<and> (cs = [] \<longleftrightarrow> length array \<le> i)"
proof (induction "length array - i" arbitrary: i result rule: less_induct)
  case less
  show ?case
  proof (cases "i < length array")
    case False
    then have "chunkArray_loop array sz i result = Some (result @ [])"
      by (subst chunkArray_loop.simps) simp
    with False show ?thesis by auto
  next
    case True
    let ?c = "take sz (drop i array)"
    from True assms have "length array - (i + sz) < length array - i" by arith
    from less [OF this, of "result @ [?c]"]
    obtain cs where rec: "chunkArray_loop array sz (i + sz) (result @ [?c]) = Some ((result @ [?c]) @ cs)"
      and cat: "concat cs = drop (i + sz) array"
      and len: "list_all (\<lambda>c. 0 < length c \<and> length c \<le> sz) cs"
      and full: "list_all (\<lambda>c. length c = sz) (butlast cs)"
      and emp: "cs = [] \<longleftrightarrow> length array \<le> i + sz"
      by blast
    have run: "chunkArray_loop array sz i result = Some (result @ (?c # cs))"
      using True rec by (subst chunkArray_loop.simps) (simp add: slice_take_drop)
    have c1: "concat (?c # cs) = drop i array"
    proof -
      have "drop sz (drop i array) = drop (i + sz) array" by (simp add: add.commute)
      with cat have "concat cs = drop sz (drop i array)" by simp
      then have "concat (?c # cs) = take sz (drop i array) @ drop sz (drop i array)"
        by simp
      then show ?thesis by (simp only: append_take_drop_id)
    qed
    have c2: "list_all (\<lambda>c. 0 < length c \<and> length c \<le> sz) (?c # cs)"
      using len True assms by simp
    have c3: "list_all (\<lambda>c. length c = sz) (butlast (?c # cs))"
    proof (cases "cs = []")
      case True
      then show ?thesis by simp
    next
      case False
      with emp have "i + sz < length array" by simp
      then have "length ?c = sz" by simp
      with full False show ?thesis by simp
    qed
    from run c1 c2 c3 True show ?thesis by auto
  qed
qed

text \<open>
  C10. For every array and every chunk size \<open>sz > 0\<close>, \<open>chunkArray\<close> returns, and the
  chunks it returns concatenate to the array (the elements in their original order,
  each in exactly one chunk), every chunk has at most \<open>sz\<close> elements, every chunk but
  possibly the last has exactly \<open>sz\<close> elements, and there is no chunk exactly when the
  array is empty.
\<close>

theorem chunkArray_partitions:
  assumes "0 < sz"
  shows "\<exists>cs. chunkArray xs sz = Some cs
           \<and> concat cs = xs
           \<and> list_all (\<lambda>c. length c \<le> sz) cs
           \<and> list_all (\<lambda>c. length c = sz) (butlast cs)
           \<and> (cs = [] \<longleftrightarrow> xs = [])"
proof -
  from chunkArray_loop_returns [OF assms, of xs 0 "[]"]
  obtain cs where "chunkArray_loop xs sz 0 [] = Some ([] @ cs)" "concat cs = drop 0 xs"
    "list_all (\<lambda>c. 0 < length c \<and> length c \<le> sz) cs"
    "list_all (\<lambda>c. length c = sz) (butlast cs)" "cs = [] \<longleftrightarrow> length xs \<le> 0"
    by blast
  then show ?thesis
    by (auto simp: chunkArray_def list_all_iff)
qed

theorem chunkArray_partitions_witness:
  "(0::nat) < 2 \<and> (\<exists>cs. chunkArray [1, 2, 3, 4, 5 :: nat] 2 = Some cs
      \<and> concat cs = [1, 2, 3, 4, 5]
      \<and> list_all (\<lambda>c. length c \<le> 2) cs
      \<and> list_all (\<lambda>c. length c = 2) (butlast cs)
      \<and> (cs = [] \<longleftrightarrow> [1, 2, 3, 4, 5 :: nat] = []))"
  using chunkArray_partitions [of 2 "[1, 2, 3, 4, 5 :: nat]"] by simp

section \<open>The thirty-day restriction\<close>

lemma MS_PER_DAY_pos: "0 < MS_PER_DAY" by (simp add: MS_PER_DAY_def)

lemma daysSince_less: "(daysSince lastDate now < 30) = (now < lastDate + 30 * MS_PER_DAY)"
proof -
  let ?D = "real_of_int MS_PER_DAY"
  have D: "0 < ?D" using MS_PER_DAY_pos by simp
  have "(real_of_int (now - lastDate) / ?D < 30) = (real_of_int (now - lastDate) < 30 * ?D)"
    using D by (simp add: pos_divide_less_eq)
  also have "\<dots> = (real_of_int (now - lastDate) < real_of_int (30 * MS_PER_DAY))" by simp
  also have "\<dots> = (now - lastDate < 30 * MS_PER_DAY)" by (simp only: of_int_less_iff)
  also have "\<dots> = (now < lastDate + 30 * MS_PER_DAY)" by arith
  finally show ?thesis by (simp only: daysSince_def)
qed

lemma remaining_days:
  "real_of_int (lastDate + 30 * MS_PER_DAY - now) / real_of_int MS_PER_DAY
     = 30 - daysSince lastDate now"
proof -
  let ?D = "real_of_int MS_PER_DAY"
  have D: "0 < ?D" using MS_PER_DAY_pos by simp
  have "lastDate + 30 * MS_PER_DAY - now = 30 * MS_PER_DAY - (now - lastDate)"
    by arith
  then have "real_of_int (lastDate + 30 * MS_PER_DAY - now) / ?D
               = (30 * ?D - real_of_int (now - lastDate)) / ?D"
    by simp
  also have "\<dots> = 30 - real_of_int (now - lastDate) / ?D"
    using D by (simp add: diff_divide_distrib)
  finally show ?thesis by (simp only: daysSince_def)
qed

lemma nextDateOf_same_offset:
  assumes "tz lastDate True = tz (LocalTime tz lastDate + 30 * MS_PER_DAY) False"
    and "nextDateOf tz lastDate = Some nextDate"
  shows "nextDate = lastDate + 30 * MS_PER_DAY"
proof -
  have "UTC tz (LocalTime tz lastDate + 30 * MS_PER_DAY)
      = lastDate + tz lastDate True + 30 * MS_PER_DAY
        - tz (LocalTime tz lastDate + 30 * MS_PER_DAY) False"
    by (simp add: UTC_def LocalTime_def)
  with assms(1) have "UTC tz (LocalTime tz lastDate + 30 * MS_PER_DAY) = lastDate + 30 * MS_PER_DAY"
    by simp
  with assms(2) show ?thesis
    by (simp add: nextDateOf_def TimeClip_def split: if_splits)
qed

lemma restrictionEffect_days:
  assumes "last_password_change profile = DateAt lastDate"
    and "nextDateOf tz lastDate = Some nextDate"
  shows "daysRemaining (restrictionEffect tz profile now st) =
     (if now < nextDate
      then \<lceil>real_of_int (nextDate - now) / real_of_int MS_PER_DAY\<rceil> else 0)"
proof (cases "now < nextDate")
  case True
  then have "\<bar>nextDate - now\<bar> = nextDate - now" by simp
  with True assms show ?thesis
    by (simp add: restrictionEffect_def Let_def del: of_int_diff)
next
  case False
  with assms show ?thesis by (simp add: restrictionEffect_def Let_def)
qed

lemma restrictionEffect_no_next_date:
  assumes "last_password_change profile = DateAt lastDate"
    and "nextDateOf tz lastDate = None"
  shows "daysRemaining (restrictionEffect tz profile now st) = 0"
  using assms by (simp add: restrictionEffect_def)

lemma restrictionEffect_NoDate:
  "last_password_change profile = NoDate \<Longrightarrow> restrictionEffect tz profile now st = st"
  by (simp add: restrictionEffect_def)

lemma remaining_positive:
  assumes "now < nextDate"
  shows "0 < \<lceil>real_of_int (nextDate - now) / real_of_int MS_PER_DAY\<rceil>"
proof -
  from assms have "0 < real_of_int (nextDate - now)" by simp
  moreover have "0 < real_of_int MS_PER_DAY" using MS_PER_DAY_pos by simp
  ultimately have "0 < real_of_int (nextDate - now) / real_of_int MS_PER_DAY"
    by (rule divide_pos_pos)
  then show ?thesis by (simp only: zero_less_ceiling)
qed

lemma handleRequestToken_refused:
  assumes "0 < daysRemaining st" "\<not> isUsingSpecialToken st"
  shows "rateLimited st (daysRemaining st) (handleRequestToken profile code env st)"
  using assms by (simp add: handleRequestToken_def rateLimited_def Let_def)

lemma handleRequestToken_proceeds:
  assumes "\<not> (0 < daysRemaining st \<and> \<not> isUsingSpecialToken st)"
  shows "proceeds code (handleRequestToken profile code env st)"
  using assms by (auto simp: handleRequestToken_def proceeds_def Let_def split: sum.splits)

lemma proceeds_not_rateLimited:
  "proceeds code st' \<Longrightarrow> \<not> rateLimited st days st'"
  by (auto simp: proceeds_def rateLimited_def split: option.splits)

text \<open>
  C1, as amended. Let the profile's last password change be a valid date and
  \<open>nextDate\<close> that date moved on by thirty days in local time. Let the day count the
  page holds be the one its effect stored when it ran at the clock reading
  \<open>mountTime\<close>, and let a code be requested, at whatever later time, without an
  administrative token. The request is refused with the security-limit error
  exactly when \<open>mountTime < nextDate\<close>; the error then reports the days from
  \<open>mountTime\<close> to \<open>nextDate\<close>, a fraction of a day counting as a whole one, and nothing
  else of the session changes; otherwise the request goes on to the verification
  step. Where the zone's offset is the same at both dates, \<open>nextDate\<close> is the last
  change plus thirty days of 24 hours, and with \<open>d\<close> the days from the last change to
  \<open>mountTime\<close> the request is refused exactly when \<open>d < 30\<close> and the count is
  \<open>\<lceil>30 - d\<rceil>\<close>. The request also goes on when thirty days on is no date any more, and
  when the profile has no last password change and the page holds the zero days it
  starts with.
\<close>

theorem request_refused_iff_mounted_before_next_date:
  "(last_password_change profile = DateAt lastDate
      \<and> daysRemaining st = daysRemaining (restrictionEffect tz profile mountTime st0)
      \<and> \<not> isUsingSpecialToken st \<longrightarrow>
      (nextDateOf tz lastDate = Some nextDate \<longrightarrow>
         (let remaining = \<lceil>real_of_int (nextDate - mountTime) / real_of_int MS_PER_DAY\<rceil>;
              st' = handleRequestToken profile code env st
          in ((\<exists>days. rateLimited st days st') \<longleftrightarrow> mountTime < nextDate)
             \<and> (if mountTime < nextDate then rateLimited st remaining st' else proceeds code st')
             \<and> (tz lastDate True = tz (LocalTime tz lastDate + 30 * MS_PER_DAY) False \<longrightarrow>
                   nextDate = lastDate + 30 * MS_PER_DAY
                   \<and> (mountTime < nextDate \<longleftrightarrow> daysSince lastDate mountTime < 30)
                   \<and> remaining = \<lceil>30 - daysSince lastDate mountTime\<rceil>)))
      \<and> (nextDateOf tz lastDate = None \<longrightarrow>
            proceeds code (handleRequestToken profile code env st)))
   \<and> (last_password_change profile = NoDate \<and> \<not> isUsingSpecialToken st \<and> daysRemaining st = 0 \<longrightarrow>
        proceeds code
          (handleRequestToken profile code env (restrictionEffect tz profile mountTime st)))"
proof (intro conjI impI)
  assume a: "last_password_change profile = DateAt lastDate
      \<and> daysRemaining st = daysRemaining (restrictionEffect tz profile mountTime st0)
      \<and> \<not> isUsingSpecialToken st"
    and nd: "nextDateOf tz lastDate = Some nextDate"
  let ?rem = "\<lceil>real_of_int (nextDate - mountTime) / real_of_int MS_PER_DAY\<rceil>"
  let ?st' = "handleRequestToken profile code env st"
  from a have date: "last_password_change profile = DateAt lastDate"
    and stored: "daysRemaining st = daysRemaining (restrictionEffect tz profile mountTime st0)"
    and tok: "\<not> isUsingSpecialToken st"
    by blast+
  from stored restrictionEffect_days [OF date nd, of mountTime st0]
  have days: "daysRemaining st = (if mountTime < nextDate then ?rem else 0)" by simp
  have main: "((\<exists>days. rateLimited st days ?st') \<longleftrightarrow> mountTime < nextDate)
          \<and> (if mountTime < nextDate then rateLimited st ?rem ?st' else proceeds code ?st')"
  proof (cases "mountTime < nextDate")
    case True
    with days remaining_positive [OF True] have "0 < daysRemaining st" by simp
    from handleRequestToken_refused [OF this tok, of profile code env] days True
    have "rateLimited st ?rem ?st'" by simp
    with True show ?thesis by auto
  next
    case False
    with days have "\<not> (0 < daysRemaining st \<and> \<not> isUsingSpecialToken st)" by simp
    from handleRequestToken_proceeds [OF this]
    have "proceeds code ?st'" .
    with False proceeds_not_rateLimited show ?thesis by auto
  qed
  have same: "tz lastDate True = tz (LocalTime tz lastDate + 30 * MS_PER_DAY) False \<longrightarrow>
                nextDate = lastDate + 30 * MS_PER_DAY
                \<and> (mountTime < nextDate \<longleftrightarrow> daysSince lastDate mountTime < 30)
                \<and> ?rem = \<lceil>30 - daysSince lastDate mountTime\<rceil>"
  proof
    assume "tz lastDate True = tz (LocalTime tz lastDate + 30 * MS_PER_DAY) False"
    from nextDateOf_same_offset [OF this nd]
    have n: "nextDate = lastDate + 30 * MS_PER_DAY" .
    have "(mountTime < lastDate + 30 * MS_PER_DAY) = (daysSince lastDate mountTime < 30)"
      by (simp only: daysSince_less)
    moreover have "\<lceil>real_of_int (lastDate + 30 * MS_PER_DAY - mountTime) / real_of_int MS_PER_DAY\<rceil>
        = \<lceil>30 - daysSince lastDate mountTime\<rceil>"
      by (simp only: remaining_days)
    ultimately show "nextDate = lastDate + 30 * MS_PER_DAY
                \<and> (mountTime < nextDate \<longleftrightarrow> daysSince lastDate mountTime < 30)
                \<and> ?rem = \<lceil>30 - daysSince lastDate mountTime\<rceil>"
      by (simp only: n)
  qed
  from main
  have m1: "(\<exists>days. rateLimited st days ?st') \<longleftrightarrow> mountTime < nextDate"
    and m2: "if mountTime < nextDate then rateLimited st ?rem ?st' else proceeds code ?st'"
    by blast+
  show "let remaining = \<lceil>real_of_int (nextDate - mountTime) / real_of_int MS_PER_DAY\<rceil>;
              st' = handleRequestToken profile code env st
          in ((\<exists>days. rateLimited st days st') \<longleftrightarrow> mountTime < nextDate)
             \<and> (if mountTime < nextDate then rateLimited st remaining st' else proceeds code st')
             \<and> (tz lastDate True = tz (LocalTime tz lastDate + 30 * MS_PER_DAY) False \<longrightarrow>
                   nextDate = lastDate + 30 * MS_PER_DAY
                   \<and> (mountTime < nextDate \<longleftrightarrow> daysSince lastDate mountTime < 30)
                   \<and> remaining = \<lceil>30 - daysSince lastDate mountTime\<rceil>)"
    unfolding Let_def by (rule conjI [OF m1 conjI [OF m2 same]])
next
  assume a: "last_password_change profile = DateAt lastDate
      \<and> daysRemaining st = daysRemaining (restrictionEffect tz profile mountTime st0)
      \<and> \<not> isUsingSpecialToken st"
    and nd: "nextDateOf tz lastDate = None"
  from a have date: "last_password_change profile = DateAt lastDate"
    and stored: "daysRemaining st = daysRemaining (restrictionEffect tz profile mountTime st0)"
    by blast+
  from stored restrictionEffect_no_next_date [OF date nd, of mountTime st0]
  have "\<not> (0 < daysRemaining st \<and> \<not> isUsingSpecialToken st)" by simp
  from handleRequestToken_proceeds [OF this]
  show "proceeds code (handleRequestToken profile code env st)" .
next
  assume a: "last_password_change profile = NoDate \<and> \<not> isUsingSpecialToken st \<and> daysRemaining st = 0"
  then have "\<not> (0 < daysRemaining st \<and> \<not> isUsingSpecialToken st)" by simp
  from handleRequestToken_proceeds [OF this] a
  show "proceeds code
          (handleRequestToken profile code env (restrictionEffect tz profile mountTime st))"
    by (simp add: restrictionEffect_NoDate)
qed

lemma half_day_rounds_up: "\<lceil>43200000 / real_of_int MS_PER_DAY\<rceil> = 1"
  by (simp add: MS_PER_DAY_def ceiling_eq_iff)

lemma half_hour_rounds_up: "\<lceil>1800000 / real_of_int MS_PER_DAY\<rceil> = 1"
  by (simp add: MS_PER_DAY_def ceiling_eq_iff)

lemma nextDateOf_manila: "nextDateOf manila 1729008000000 = Some 1731600000000"
  by (simp add: nextDateOf_def TimeClip_def UTC_def LocalTime_def manila_def MS_PER_DAY_def)

lemma nextDateOf_newYork: "nextDateOf newYork 1729008000000 = Some 1731603600000"
  by (simp add: nextDateOf_def TimeClip_def UTC_def LocalTime_def newYork_def MS_PER_DAY_def)

lemma effect_keeps_flag:
  "isUsingSpecialToken (restrictionEffect tz profile now st) = isUsingSpecialToken st"
  by (simp add: restrictionEffect_def Let_def split: date_value.splits option.splits)

theorem request_refused_iff_mounted_before_next_date_witness:
  "last_password_change exampleProfile = DateAt 1729008000000
   \<and> \<not> isUsingSpecialToken (restrictionEffect manila exampleProfile 1731556800000 initial_state)
   \<and> manila 1729008000000 True = manila (LocalTime manila 1729008000000 + 30 * MS_PER_DAY) False
   \<and> daysSince 1729008000000 1731556800000 < 30
   \<and> rateLimited (restrictionEffect manila exampleProfile 1731556800000 initial_state) 1
        (handleRequestToken exampleProfile 123456 mailerUp
           (restrictionEffect manila exampleProfile 1731556800000 initial_state))
   \<and> \<not> daysSince 1729008000000 1731600000000 < 30
   \<and> proceeds 123456
        (handleRequestToken exampleProfile 123456 mailerUp
           (restrictionEffect manila exampleProfile 1731600000000 initial_state))
   \<and> nextDateOf newYork 1729008000000 = Some 1731603600000
   \<and> rateLimited (restrictionEffect newYork exampleProfile 1731601800000 initial_state) 1
        (handleRequestToken exampleProfile 123456 mailerUp
           (restrictionEffect newYork exampleProfile 1731601800000 initial_state))"
proof -
  let ?early = "restrictionEffect manila exampleProfile 1731556800000 initial_state"
  let ?late = "restrictionEffect manila exampleProfile 1731600000000 initial_state"
  let ?ny = "restrictionEffect newYork exampleProfile 1731601800000 initial_state"
  have date: "last_password_change exampleProfile = DateAt 1729008000000"
    by (simp add: exampleProfile_def)
  have flag: "\<not> isUsingSpecialToken ?early" "\<not> isUsingSpecialToken ?late"
    "\<not> isUsingSpecialToken ?ny"
    by (simp_all add: effect_keeps_flag initial_state_def)
  have same: "manila 1729008000000 True = manila (LocalTime manila 1729008000000 + 30 * MS_PER_DAY) False"
    by (simp add: manila_def)
  have d1: "daysSince 1729008000000 1731556800000 = 59 / 2"
    by (simp add: daysSince_def MS_PER_DAY_def)
  have d2: "daysSince 1729008000000 1731600000000 = 30"
    by (simp add: daysSince_def MS_PER_DAY_def)
  from request_refused_iff_mounted_before_next_date
    [of exampleProfile 1729008000000 ?early manila 1731556800000 initial_state 1731600000000 123456 mailerUp]
    date flag(1)
  have r1: "rateLimited ?early 1 (handleRequestToken exampleProfile 123456 mailerUp ?early)"
    by (simp add: Let_def nextDateOf_manila half_day_rounds_up)
  from request_refused_iff_mounted_before_next_date
    [of exampleProfile 1729008000000 ?late manila 1731600000000 initial_state 1731600000000 123456 mailerUp]
    date flag(2)
  have r2: "proceeds 123456 (handleRequestToken exampleProfile 123456 mailerUp ?late)"
    by (simp add: Let_def nextDateOf_manila)
  from request_refused_iff_mounted_before_next_date
    [of exampleProfile 1729008000000 ?ny newYork 1731601800000 initial_state 1731603600000 123456 mailerUp]
    date flag(3)
  have r3: "rateLimited ?ny 1 (handleRequestToken exampleProfile 123456 mailerUp ?ny)"
    by (simp add: Let_def nextDateOf_newYork half_hour_rounds_up)
  from date flag(1) same d1 d2 r1 r2 r3 show ?thesis
    by (simp add: nextDateOf_newYork)
qed

text \<open>
  As the specification has it, with \<open>d\<close> the days of 24 hours from the last change to
  the time of the request, the request is refused only if \<open>d < 30\<close>. That does not
  hold. In a zone whose clock is set back an hour within the thirty days,
  \<open>nextDate\<close> is thirty days and an hour after the last change: a request thirty days
  and half an hour after it is refused, with one day reported. And the page does not
  read the clock again: mounted 29.5 days after the last change and left open, it
  still refuses a request made 30.5 days after it.
\<close>

theorem request_after_thirty_days_refused_counterexample:
  "last_password_change exampleProfile = DateAt 1729008000000
   \<and> 30 \<le> daysSince 1729008000000 1731601800000
   \<and> rateLimited (restrictionEffect newYork exampleProfile 1731601800000 initial_state) 1
        (handleRequestToken exampleProfile 123456 mailerUp
           (restrictionEffect newYork exampleProfile 1731601800000 initial_state))
   \<and> (1731556800000 :: int) \<le> 1731643200000
   \<and> 30 \<le> daysSince 1729008000000 1731643200000
   \<and> rateLimited (restrictionEffect manila exampleProfile 1731556800000 initial_state) 1
        (handleRequestToken exampleProfile 123456 mailerUp
           (restrictionEffect manila exampleProfile 1731556800000 initial_state))"
proof -
  have date: "last_password_change exampleProfile = DateAt 1729008000000"
    by (simp add: exampleProfile_def)
  have d1: "30 \<le> daysSince 1729008000000 1731601800000"
    by (simp add: daysSince_def MS_PER_DAY_def)
  have d2: "30 \<le> daysSince 1729008000000 1731643200000"
    by (simp add: daysSince_def MS_PER_DAY_def)
  have e1: "restrictionEffect newYork exampleProfile 1731601800000 initial_state
      = initial_state\<lparr>daysRemaining := 1\<rparr>"
    by (simp add: restrictionEffect_def date nextDateOf_newYork Let_def half_hour_rounds_up)
  have e2: "restrictionEffect manila exampleProfile 1731556800000 initial_state
      = initial_state\<lparr>daysRemaining := 1\<rparr>"
    by (simp add: restrictionEffect_def date nextDateOf_manila Let_def half_day_rounds_up)
  have r: "rateLimited (initial_state\<lparr>daysRemaining := 1\<rparr>) 1
      (handleRequestToken exampleProfile 123456 mailerUp (initial_state\<lparr>daysRemaining := 1\<rparr>))"
    by (simp add: handleRequestToken_def rateLimited_def initial_state_def Let_def)
  from date d1 d2 r show ?thesis by (simp add: e1 e2)
qed

section \<open>Requesting a code when the mailer fails\<close>


lemma toString_123456: "toString 123456 = (js ''123456'')"
  by (simp add: toString_def digits.simps digit_def js_def)

lemma trySendCode_mailer_failure:
  "sendEmail env \<noteq> Resolved None \<Longrightarrow> \<exists>err. trySendCode profile env = Inl err"
  by (cases "sendEmail env") (auto simp: trySendCode_def split: awaited.splits option.splits)

text \<open>
  C9. When a request for a code passes the rate-limit guard and the mailer fails
  (the call rejects, or it returns an error), the flow does not stop with an error:
  the generated code is put on display (\<open>devTokenDisplay\<close>), no error message is
  set, and the session moves to the verification step.
\<close>

theorem mailer_failure_shows_code:
  assumes "\<not> (0 < daysRemaining st \<and> \<not> isUsingSpecialToken st)"
    and "sendEmail env \<noteq> Resolved None"
  shows "handleRequestToken profile code env st =
           st\<lparr>message := None, devTokenDisplay := Some (toString code),
              generatedToken := toString code, step := verify_token,
              isProcessing := False\<rparr>"
proof -
  from trySendCode_mailer_failure [OF assms(2)]
  obtain err where "trySendCode profile env = Inl err" by blast
  with assms(1) show ?thesis
    by (auto simp: handleRequestToken_def Let_def)
qed

theorem mailer_failure_shows_code_witness:
  "\<not> (0 < daysRemaining initial_state \<and> \<not> isUsingSpecialToken initial_state)
   \<and> sendEmail mailerDown \<noteq> Resolved None
   \<and> handleRequestToken exampleProfile 123456 mailerDown initial_state =
       initial_state\<lparr>devTokenDisplay := Some (js ''123456''), generatedToken := (js ''123456''),
                      step := verify_token\<rparr>"
  using mailer_failure_shows_code [of initial_state mailerDown exampleProfile 123456]
  by (simp add: initial_state_def mailerDown_def toString_123456)


section \<open>Verifying the code or the administrative token\<close>

lemma handleVerifyToken_email:
  assumes "\<not> isUsingSpecialToken st"
  shows "handleVerifyToken profile db getOutcome st =
     (if trim (verificationToken st) = generatedToken st
      then (st\<lparr>step := set_password, message := None, isProcessing := False\<rparr>, [])
      else (st\<lparr>message := Some \<lparr>msg_type = error, msg_text = (js ''Invalid verification code.'')\<rparr>,
               isProcessing := False\<rparr>, []))"
  using assms by (simp add: handleVerifyToken_def Let_def)

lemma handleVerifyToken_admin:
  assumes "isUsingSpecialToken st"
  shows "handleVerifyToken profile db getOutcome st =
     (case getOutcome of
        Rejected err \<Rightarrow>
          (st\<lparr>message := Some \<lparr>msg_type = error, msg_text = err\<rparr>, isProcessing := False\<rparr>,
           [ProfilesGet (profile_id profile)])
      | Resolved u \<Rightarrow>
          (if trim (verificationToken st) \<noteq> [] \<and>
              (\<exists>doc. profiles db (profile_id profile) = Some doc \<and>
                 doc (js ''special_password_token'') = Some (StringValue (trim (verificationToken st))))
           then (st\<lparr>step := set_password, message := None, isProcessing := False\<rparr>,
                 [ProfilesGet (profile_id profile)])
           else (st\<lparr>message := Some \<lparr>msg_type = error,
                                       msg_text = (js ''Invalid Administrative Token.'')\<rparr>,
                    isProcessing := False\<rparr>, [ProfilesGet (profile_id profile)])))"
  using assms
  by (auto simp: handleVerifyToken_def Let_def truthyField_def
      split: awaited.splits option.splits field_value.splits)

lemma trim_no_white_space:
  assumes "\<forall>c \<in> set s. \<not> isWhiteSpace c"
  shows "trim s = s"
proof (cases "s = []")
  case True
  then show ?thesis by (simp add: trim_def)
next
  case False
  with assms have "\<not> isWhiteSpace (hd s)" "\<not> isWhiteSpace (last s)" by simp_all
  with False have "dropWhile isWhiteSpace s = s" "dropWhile isWhiteSpace (rev s) = rev s"
    by (simp_all add: dropWhile_eq_self_iff hd_rev)
  then show ?thesis by (simp add: trim_def)
qed

lemma digit_no_white_space:
  assumes "d < 10"
  shows "\<not> isWhiteSpace (digit d)"
proof -
  from assms have "d = 0 \<or> d = 1 \<or> d = 2 \<or> d = 3 \<or> d = 4 \<or> d = 5
      \<or> d = 6 \<or> d = 7 \<or> d = 8 \<or> d = 9"
    by arith
  then show ?thesis
    by (elim disjE) (simp_all add: digit_def isWhiteSpace_def)
qed

lemma digits_no_white_space: "\<forall>c \<in> set (digits n). \<not> isWhiteSpace c"
proof (induction n rule: digits.induct)
  case (1 n)
  show ?case
  proof (cases "n < 10")
    case True
    then have "digits n = [digit n]" by (subst digits.simps) simp
    with digit_no_white_space [OF True] show ?thesis by simp
  next
    case False
    then have eq: "digits n = digits (n div 10) @ [digit (n mod 10)]"
      by (subst digits.simps) simp
    have "n mod 10 < 10" by simp
    from digit_no_white_space [OF this] "1.IH" [OF False] show ?thesis
      by (simp add: eq)
  qed
qed

lemma toString_no_white_space: "\<forall>c \<in> set (toString n). \<not> isWhiteSpace c"
  using digits_no_white_space [of "nat n"] digits_no_white_space [of "nat (- n)"]
  by (simp add: toString_def isWhiteSpace_def)

lemma trim_toString: "trim (toString n) = toString n"
  by (rule trim_no_white_space) (rule toString_no_white_space)

lemma persistedToken_eq:
  "(persistedToken db profile = Some (StringValue t)) =
     (\<exists>doc. profiles db (profile_id profile) = Some doc
        \<and> doc (js ''special_password_token'') = Some (StringValue t))"
  by (simp add: persistedToken_def split: option.splits)

text \<open>
  C2, as amended. In a session that uses an administrative token, verification
  succeeds exactly when the read of the profile document resolves and the document
  then holds, as its token, the entered value with the white space at its ends
  removed, and that value is not empty. The token is the one in the store at the
  time of verification: the copy in the page's profile plays no part, and after the
  stored token has been replaced or removed an entry whose trimmed value is not the
  stored token fails, the session staying in the verification step with an error.
\<close>

theorem admin_token_verifies_iff_current:
  "isUsingSpecialToken st \<and> step st = verify_token \<longrightarrow>
     (step (fst (handleVerifyToken profile db getOutcome st)) = set_password
        \<longleftrightarrow> (\<exists>u. getOutcome = Resolved u)
            \<and> trim (verificationToken st) \<noteq> []
            \<and> persistedToken db profile = Some (StringValue (trim (verificationToken st))))
     \<and> (step (fst (handleVerifyToken profile db getOutcome st)) \<noteq> set_password \<longrightarrow>
          step (fst (handleVerifyToken profile db getOutcome st)) = verify_token
          \<and> (\<exists>m. message (fst (handleVerifyToken profile db getOutcome st))
                   = Some \<lparr>msg_type = error, msg_text = m\<rparr>))
     \<and> handleVerifyToken (profile\<lparr>special_password_token := cached\<rparr>) db getOutcome st
          = handleVerifyToken profile db getOutcome st
     \<and> snd (handleVerifyToken profile db getOutcome st) = [ProfilesGet (profile_id profile)]"
proof (intro impI)
  assume a: "isUsingSpecialToken st \<and> step st = verify_token"
  then have u: "isUsingSpecialToken st" and s: "step st = verify_token" by simp_all
  show "(step (fst (handleVerifyToken profile db getOutcome st)) = set_password
        \<longleftrightarrow> (\<exists>u. getOutcome = Resolved u)
            \<and> trim (verificationToken st) \<noteq> []
            \<and> persistedToken db profile = Some (StringValue (trim (verificationToken st))))
     \<and> (step (fst (handleVerifyToken profile db getOutcome st)) \<noteq> set_password \<longrightarrow>
          step (fst (handleVerifyToken profile db getOutcome st)) = verify_token
          \<and> (\<exists>m. message (fst (handleVerifyToken profile db getOutcome st))
                   = Some \<lparr>msg_type = error, msg_text = m\<rparr>))
     \<and> handleVerifyToken (profile\<lparr>special_password_token := cached\<rparr>) db getOutcome st
          = handleVerifyToken profile db getOutcome st
     \<and> snd (handleVerifyToken profile db getOutcome st) = [ProfilesGet (profile_id profile)]"
  proof (cases getOutcome)
    case (Resolved x)
    with s show ?thesis
      by (auto simp: handleVerifyToken_admin [OF u] persistedToken_eq)
  next
    case (Rejected err)
    with s show ?thesis
      by (simp add: handleVerifyToken_admin [OF u])
  qed
qed

theorem admin_token_verifies_iff_current_witness:
  "isUsingSpecialToken tokenSession \<and> step tokenSession = verify_token
   \<and> step (fst (handleVerifyToken exampleProfile exampleStore (Resolved ()) tokenSession)) = set_password
   \<and> step (fst (handleVerifyToken exampleProfile reissuedStore (Resolved ()) tokenSession)) = verify_token
   \<and> isUsingSpecialToken emSpaceTokenSession \<and> step emSpaceTokenSession = verify_token
   \<and> step (fst (handleVerifyToken exampleProfile exampleStore (Resolved ()) emSpaceTokenSession))
       = set_password"
proof -
  have h: "isUsingSpecialToken tokenSession \<and> step tokenSession = verify_token"
    by (simp add: tokenSession_def initial_state_def)
  have h': "isUsingSpecialToken emSpaceTokenSession \<and> step emSpaceTokenSession = verify_token"
    by (simp add: emSpaceTokenSession_def initial_state_def)
  have t': "trim (verificationToken emSpaceTokenSession) = (js ''sk_live_A1'')"
    by (simp add: emSpaceTokenSession_def initial_state_def trim_def isWhiteSpace_def js_def)
  have t: "trim (verificationToken tokenSession) = (js ''sk_live_A1'')"
    by (simp add: tokenSession_def initial_state_def trim_def isWhiteSpace_def js_def)
  have p1: "persistedToken exampleStore exampleProfile = Some (StringValue (js ''sk_live_A1''))"
    by (simp add: persistedToken_def exampleStore_def exampleProfile_def)
  have p2: "persistedToken reissuedStore exampleProfile = Some (StringValue (js ''sk_live_B2''))"
    by (simp add: persistedToken_def reissuedStore_def exampleProfile_def)
  from admin_token_verifies_iff_current [of tokenSession exampleProfile exampleStore "Resolved ()"] h t p1
  have r1: "step (fst (handleVerifyToken exampleProfile exampleStore (Resolved ()) tokenSession)) = set_password"
    by (simp add: js_def)
  from admin_token_verifies_iff_current [of tokenSession exampleProfile reissuedStore "Resolved ()"] h t p2
  have r2: "step (fst (handleVerifyToken exampleProfile reissuedStore (Resolved ()) tokenSession)) = verify_token"
    by (simp add: js_def)
  from admin_token_verifies_iff_current [of emSpaceTokenSession exampleProfile exampleStore "Resolved ()"] h' t' p1
  have r3: "step (fst (handleVerifyToken exampleProfile exampleStore (Resolved ()) emSpaceTokenSession)) = set_password"
    by (simp add: js_def)
  from h r1 r2 h' r3 show ?thesis by simp
qed

text \<open>
  Success only if the entered value equals the stored token, as the specification
  has it, does not hold: an entry that is the stored token followed by a space
  verifies.
\<close>

theorem admin_token_padded_counterexample:
  "isUsingSpecialToken paddedTokenSession
   \<and> persistedToken exampleStore exampleProfile = Some (StringValue (js ''sk_live_A1''))
   \<and> verificationToken paddedTokenSession \<noteq> (js ''sk_live_A1'')
   \<and> step (fst (handleVerifyToken exampleProfile exampleStore (Resolved ()) paddedTokenSession))
       = set_password"
  by (simp add: handleVerifyToken_def paddedTokenSession_def initial_state_def exampleStore_def
      exampleProfile_def persistedToken_def truthyField_def trim_def isWhiteSpace_def Let_def
      js_def)

text \<open>
  C7, as amended. In a session that does not use an administrative token,
  verification succeeds exactly when the entered value, with the white space at its
  ends removed, equals the code generated in this session. No call to the backend
  is made. An entry that does not match leaves the session in the verification step
  with the error "Invalid verification code."; in particular a code generated
  elsewhere, of a different value, does not verify.
\<close>

theorem email_code_verifies_iff_trimmed:
  "\<not> isUsingSpecialToken st \<and> step st = verify_token \<longrightarrow>
     (step (fst (handleVerifyToken profile db getOutcome st)) = set_password
        \<longleftrightarrow> trim (verificationToken st) = generatedToken st)
     \<and> snd (handleVerifyToken profile db getOutcome st) = []
     \<and> (trim (verificationToken st) \<noteq> generatedToken st \<longrightarrow>
          fst (handleVerifyToken profile db getOutcome st) =
            st\<lparr>message := Some \<lparr>msg_type = error, msg_text = (js ''Invalid verification code.'')\<rparr>,
               isProcessing := False\<rparr>)
     \<and> (\<forall>other. verificationToken st = toString other \<and> toString other \<noteq> generatedToken st \<longrightarrow>
          step (fst (handleVerifyToken profile db getOutcome st)) = verify_token)"
  by (auto simp: handleVerifyToken_email trim_toString)


theorem email_code_verifies_iff_trimmed_witness:
  "\<not> isUsingSpecialToken paddedCodeSession \<and> step paddedCodeSession = verify_token
   \<and> trim (verificationToken paddedCodeSession) = generatedToken paddedCodeSession
   \<and> step (fst (handleVerifyToken exampleProfile exampleStore (Resolved ()) paddedCodeSession))
       = set_password
   \<and> snd (handleVerifyToken exampleProfile exampleStore (Resolved ()) paddedCodeSession) = []
   \<and> \<not> isUsingSpecialToken emSpaceCodeSession \<and> step emSpaceCodeSession = verify_token
   \<and> trim (verificationToken emSpaceCodeSession) = generatedToken emSpaceCodeSession
   \<and> step (fst (handleVerifyToken exampleProfile exampleStore (Resolved ()) emSpaceCodeSession))
       = set_password"
proof -
  have h: "\<not> isUsingSpecialToken paddedCodeSession \<and> step paddedCodeSession = verify_token"
    by (simp add: paddedCodeSession_def initial_state_def)
  have t: "trim (verificationToken paddedCodeSession) = generatedToken paddedCodeSession"
    by (simp add: paddedCodeSession_def initial_state_def trim_def isWhiteSpace_def js_def)
  have h': "\<not> isUsingSpecialToken emSpaceCodeSession \<and> step emSpaceCodeSession = verify_token"
    by (simp add: emSpaceCodeSession_def initial_state_def)
  have t': "trim (verificationToken emSpaceCodeSession) = generatedToken emSpaceCodeSession"
    by (simp add: emSpaceCodeSession_def initial_state_def trim_def isWhiteSpace_def js_def)
  from email_code_verifies_iff_trimmed [of paddedCodeSession exampleProfile exampleStore "Resolved ()"] h t
  have r: "step (fst (handleVerifyToken exampleProfile exampleStore (Resolved ()) paddedCodeSession))
       = set_password
     \<and> snd (handleVerifyToken exampleProfile exampleStore (Resolved ()) paddedCodeSession) = []"
    by simp
  from email_code_verifies_iff_trimmed [of emSpaceCodeSession exampleProfile exampleStore "Resolved ()"] h' t'
  have r': "step (fst (handleVerifyToken exampleProfile exampleStore (Resolved ()) emSpaceCodeSession))
       = set_password"
    by simp
  from h t r h' t' r' show ?thesis by simp
qed

text \<open>
  Success only if the entered value equals the generated code, as the specification
  has it, does not hold: the code with a space before it verifies.
\<close>

theorem email_code_padded_counterexample:
  "\<not> isUsingSpecialToken paddedCodeSession
   \<and> verificationToken paddedCodeSession \<noteq> generatedToken paddedCodeSession
   \<and> step (fst (handleVerifyToken exampleProfile exampleStore (Resolved ()) paddedCodeSession))
       = set_password"
  by (simp add: handleVerifyToken_def paddedCodeSession_def initial_state_def trim_def
      isWhiteSpace_def Let_def js_def)

section \<open>Setting the new password\<close>

text \<open>
  C6. A submission whose two passwords differ is rejected with "Passwords do not
  match.", and one whose passwords agree but are shorter than six characters with
  "Password must be at least 6 characters."; the mismatch is tested first. In both
  cases no call is made (no credential update, no profile write), the store is as it
  was, and the session is as it was but for the error message, so it stays in the
  step it was in.
\<close>

theorem invalid_password_rejected_locally:
  "(newPassword st \<noteq> confirmPassword st \<longrightarrow>
      handlePasswordUpdate profile now env db st =
        \<lparr>ui = st\<lparr>message := Some \<lparr>msg_type = error, msg_text = (js ''Passwords do not match.'')\<rparr>\<rparr>,
         store = db, calls = [], profileUpdates = None\<rparr>)
   \<and> (newPassword st = confirmPassword st \<and> length (newPassword st) < 6 \<longrightarrow>
      handlePasswordUpdate profile now env db st =
        \<lparr>ui = st\<lparr>message := Some \<lparr>msg_type = error,
                                   msg_text = (js ''Password must be at least 6 characters.'')\<rparr>\<rparr>,
         store = db, calls = [], profileUpdates = None\<rparr>)"
proof (intro conjI impI)
  assume "newPassword st \<noteq> confirmPassword st"
  then show "handlePasswordUpdate profile now env db st =
        \<lparr>ui = st\<lparr>message := Some \<lparr>msg_type = error, msg_text = (js ''Passwords do not match.'')\<rparr>\<rparr>,
         store = db, calls = [], profileUpdates = None\<rparr>"
    by (simp add: handlePasswordUpdate_def Let_def)
next
  assume a: "newPassword st = confirmPassword st \<and> length (newPassword st) < 6"
  then have e: "newPassword st = confirmPassword st" and l: "length (newPassword st) < 6"
    by blast+
  from l have "length (confirmPassword st) < 6" by (simp only: e [symmetric])
  with e show "handlePasswordUpdate profile now env db st =
        \<lparr>ui = st\<lparr>message := Some \<lparr>msg_type = error,
                                   msg_text = (js ''Password must be at least 6 characters.'')\<rparr>\<rparr>,
         store = db, calls = [], profileUpdates = None\<rparr>"
    by (simp add: handlePasswordUpdate_def Let_def)
qed

theorem invalid_password_rejected_locally_witness:
  "newPassword mismatchSession \<noteq> confirmPassword mismatchSession
   \<and> length (newPassword mismatchSession) < 6
   \<and> handlePasswordUpdate exampleProfile 5 backendUp exampleStore mismatchSession =
        \<lparr>ui = mismatchSession\<lparr>message := Some \<lparr>msg_type = error,
                                               msg_text = (js ''Passwords do not match.'')\<rparr>\<rparr>,
         store = exampleStore, calls = [], profileUpdates = None\<rparr>
   \<and> newPassword weakSession = confirmPassword weakSession
   \<and> length (newPassword weakSession) < 6
   \<and> handlePasswordUpdate exampleProfile 5 backendUp exampleStore weakSession =
        \<lparr>ui = weakSession\<lparr>message := Some \<lparr>msg_type = error,
                                msg_text = (js ''Password must be at least 6 characters.'')\<rparr>\<rparr>,
         store = exampleStore, calls = [], profileUpdates = None\<rparr>"
proof -
  have m: "newPassword mismatchSession \<noteq> confirmPassword mismatchSession"
    "length (newPassword mismatchSession) < 6"
    by (simp_all add: mismatchSession_def initial_state_def js_def)
  have w: "newPassword weakSession = confirmPassword weakSession"
    "length (newPassword weakSession) < 6"
    by (simp_all add: weakSession_def initial_state_def js_def)
  from invalid_password_rejected_locally [of mismatchSession exampleProfile 5 backendUp exampleStore]
    invalid_password_rejected_locally [of weakSession exampleProfile 5 backendUp exampleStore]
    m w
  show ?thesis by simp
qed

lemma applyUpdates_dbUpdates:
  "applyUpdates (dbUpdates u) doc =
     (if u then doc((js ''last_password_change'') \<mapsto> ServerTimestamp, (js ''special_password_token'') := None)
      else doc((js ''last_password_change'') \<mapsto> ServerTimestamp))"
  by (simp add: dbUpdates_def)

lemma handlePasswordUpdate_cases:
  "handlePasswordUpdate profile now env db st = r \<Longrightarrow>
     (step (ui r) = step st \<and> profiles (store r) = profiles db
        \<and> length (filter isProfileWrite (calls r)) \<le> 1)
     \<or> (step (ui r) = request
        \<and> calls r = [AuthUpdateUser (newPassword st),
                      ProfilesUpdate (profile_id profile) (dbUpdates (isUsingSpecialToken st))]
        \<and> (\<exists>doc. profiles db (profile_id profile) = Some doc
              \<and> profiles (store r) =
                  (profiles db)(profile_id profile \<mapsto>
                     applyUpdates (dbUpdates (isUsingSpecialToken st)) doc)))"
  by (auto simp: handlePasswordUpdate_def firestoreUpdate_def Let_def
      split: awaited.splits option.splits if_splits)


text \<open>
  C4. When a submission in the set-password step completes (the session is back in
  the request step), the handler has written to the profile document exactly once:
  one update that sets \<open>last_password_change\<close> to the server timestamp and, when an
  administrative token is in use, deletes \<open>special_password_token\<close> in the same call,
  and the stored document has both changes. In no run is there more than one write
  to the profile, and the stored profile is either as it was or has the whole
  update: the timestamp is never recorded without the token being consumed.
\<close>

theorem password_change_single_profile_update:
  "(step st = set_password \<and> step (ui (handlePasswordUpdate profile now env db st)) = request \<longrightarrow>
      filter isProfileWrite (calls (handlePasswordUpdate profile now env db st)) =
        [ProfilesUpdate (profile_id profile) (dbUpdates (isUsingSpecialToken st))]
      \<and> (\<exists>doc. profiles db (profile_id profile) = Some doc
            \<and> profiles (store (handlePasswordUpdate profile now env db st)) =
                (profiles db)(profile_id profile \<mapsto>
                   (if isUsingSpecialToken st
                    then doc((js ''last_password_change'') \<mapsto> ServerTimestamp,
                             (js ''special_password_token'') := None)
                    else doc((js ''last_password_change'') \<mapsto> ServerTimestamp)))))
   \<and> length (filter isProfileWrite (calls (handlePasswordUpdate profile now env db st))) \<le> 1
   \<and> (profiles (store (handlePasswordUpdate profile now env db st)) = profiles db
        \<or> (\<exists>doc. profiles db (profile_id profile) = Some doc
              \<and> profiles (store (handlePasswordUpdate profile now env db st)) =
                  (profiles db)(profile_id profile \<mapsto>
                     applyUpdates (dbUpdates (isUsingSpecialToken st)) doc)))"
proof -
  let ?r = "handlePasswordUpdate profile now env db st"
  let ?U = "dbUpdates (isUsingSpecialToken st)"
  have w: "isProfileWrite (ProfilesUpdate (profile_id profile) ?U)"
    "\<not> isProfileWrite (AuthUpdateUser (newPassword st))"
    by simp_all
  from handlePasswordUpdate_cases [OF refl, of profile now env db st]
  consider
    (kept) "step (ui ?r) = step st" "profiles (store ?r) = profiles db"
      "length (filter isProfileWrite (calls ?r)) \<le> 1"
  | (updated) doc where "step (ui ?r) = request"
      "calls ?r = [AuthUpdateUser (newPassword st), ProfilesUpdate (profile_id profile) ?U]"
      "profiles db (profile_id profile) = Some doc"
      "profiles (store ?r) = (profiles db)(profile_id profile \<mapsto> applyUpdates ?U doc)"
    by blast
  then show ?thesis
  proof cases
    case kept
    then show ?thesis by auto
  next
    case updated
    from updated(2) w have f: "filter isProfileWrite (calls ?r) = [ProfilesUpdate (profile_id profile) ?U]"
      by simp
    from updated(3,4) have p: "\<exists>doc. profiles db (profile_id profile) = Some doc
            \<and> profiles (store ?r) = (profiles db)(profile_id profile \<mapsto> applyUpdates ?U doc)"
      by blast
    from p have p': "\<exists>doc. profiles db (profile_id profile) = Some doc
            \<and> profiles (store ?r) =
                (profiles db)(profile_id profile \<mapsto>
                   (if isUsingSpecialToken st
                    then doc((js ''last_password_change'') \<mapsto> ServerTimestamp,
                             (js ''special_password_token'') := None)
                    else doc((js ''last_password_change'') \<mapsto> ServerTimestamp)))"
      by (simp only: applyUpdates_dbUpdates)
    from f have l: "length (filter isProfileWrite (calls ?r)) \<le> 1" by simp
    from f p p' l show ?thesis by blast
  qed
qed

theorem password_change_single_profile_update_witness:
  "step bypassPasswordSession = set_password
   \<and> step (ui (handlePasswordUpdate exampleProfile 5 backendUp exampleStore bypassPasswordSession))
       = request
   \<and> filter isProfileWrite
        (calls (handlePasswordUpdate exampleProfile 5 backendUp exampleStore bypassPasswordSession))
       = [ProfilesUpdate (js ''u1'') [((js ''last_password_change''), ServerTimestamp),
                                 ((js ''special_password_token''), DeleteField)]]"
proof -
  have s: "step bypassPasswordSession = set_password"
    by (simp add: bypassPasswordSession_def initial_state_def)
  have u: "isUsingSpecialToken bypassPasswordSession"
    by (simp add: bypassPasswordSession_def initial_state_def)
  have r: "step (ui (handlePasswordUpdate exampleProfile 5 backendUp exampleStore bypassPasswordSession))
       = request"
    by (simp add: handlePasswordUpdate_def firestoreUpdate_def bypassPasswordSession_def
        initial_state_def backendUp_def exampleStore_def exampleProfile_def Let_def js_def)
  from password_change_single_profile_update
    [of bypassPasswordSession exampleProfile 5 backendUp exampleStore] s r u
  show ?thesis by (simp add: dbUpdates_def exampleProfile_def)
qed

section \<open>Bulk attendance update\<close>

lemma bulkStep_batch_length:
  "length (fst (foldl (bulkStep monitorId selectedDate newStatus) (batch, m) ps)) = length batch + length ps"
  by (induction ps arbitrary: batch m) (simp_all add: bulkStep_def)

lemma handleBulkStatusUpdate_commits:
  assumes "filteredProfiles \<noteq> []"
  shows "\<exists>batch. commits (handleBulkStatusUpdate monitorId selectedDate filteredProfiles
                     outcome newStatus coll page) = [batch]
           \<and> length batch = length filteredProfiles"
proof -
  obtain batch m where f: "foldl (bulkStep monitorId selectedDate newStatus) ([], attendanceData page)
                 filteredProfiles = (batch, m)"
    by (cases "foldl (bulkStep monitorId selectedDate newStatus) ([], attendanceData page) filteredProfiles")
  from bulkStep_batch_length [of monitorId selectedDate newStatus "[]" "attendanceData page" filteredProfiles] f
  have "length batch = length filteredProfiles" by simp
  with assms f show ?thesis
    by (simp add: handleBulkStatusUpdate_def Let_def split: awaited.splits)
qed

text \<open>
  C3. The specification asks for chunks of at most 450 writes, committed one after
  the other, and so for two commits when 900 rows are marked. \<open>handleBulkStatusUpdate\<close>
  does not split the rows: whatever their number, it fills one batch and calls
  \<open>commit()\<close> once. With 900 visible rows the only batch committed has 900 writes.
\<close>

theorem bulk_update_900_rows_single_commit:
  "map length (commits (handleBulkStatusUpdate (js ''monitor'') (js ''2024-01-15'')
      (map rowProfile [0..<900]) (Resolved ()) Present Map.empty emptyPage)) = [900]"
proof -
  have "map rowProfile [0..<900] \<noteq> []" by simp
  from handleBulkStatusUpdate_commits [OF this, of "(js ''monitor'')" "(js ''2024-01-15'')" "Resolved ()" Present Map.empty emptyPage]
  show ?thesis by auto
qed

lemma handleBulkStatusUpdate_rejected:
  assumes "filteredProfiles \<noteq> []"
  shows "handleBulkStatusUpdate monitorId selectedDate filteredProfiles (Rejected err) newStatus coll page =
     \<lparr>page_after = page\<lparr>pageError := Some (js ''Failed to update all records. Please try again.''),
                        isBulkUpdating := False\<rparr>,
      attendance_after = coll,
      commits = [fst (foldl (bulkStep monitorId selectedDate newStatus) ([], attendanceData page) filteredProfiles)]\<rparr>"
  using assms
  by (simp add: handleBulkStatusUpdate_def commitBatch_def Let_def split: prod.splits)

lemma handleBulkStatusUpdate_resolved:
  assumes "filteredProfiles \<noteq> []"
  shows "pageError (page_after (handleBulkStatusUpdate monitorId selectedDate filteredProfiles
           (Resolved u) newStatus coll page)) = None
     \<and> attendanceData (page_after (handleBulkStatusUpdate monitorId selectedDate filteredProfiles
           (Resolved u) newStatus coll page)) =
         snd (foldl (bulkStep monitorId selectedDate newStatus) ([], attendanceData page) filteredProfiles)"
  using assms
  by (simp add: handleBulkStatusUpdate_def commitBatch_def Let_def split: prod.splits)

text \<open>
  C5. When the commit of a bulk update rejects, the attendance map the page shows is
  again the one it showed before the update, the error "Failed to update all
  records. Please try again." is set and the store is as it was; no error is shown
  exactly when the commit has resolved. The handler commits a single batch, so that
  commit is the only one that can fail. The update of a single row restores the
  map in the same way when its write rejects.
\<close>

theorem failed_commit_restores_snapshot:
  "(filteredProfiles \<noteq> [] \<longrightarrow>
      (let r = handleBulkStatusUpdate monitorId selectedDate filteredProfiles outcome newStatus coll page
       in ((\<exists>err. outcome = Rejected err) \<longrightarrow>
             attendanceData (page_after r) = attendanceData page
             \<and> pageError (page_after r) = Some (js ''Failed to update all records. Please try again.'')
             \<and> attendance_after r = coll)
          \<and> (pageError (page_after r) = None \<longleftrightarrow> (\<exists>u. outcome = Resolved u))))
   \<and> (let (page', coll') = handleStatusUpdate monitorId selectedDate (Rejected err') targetUserId newStatus coll page
      in attendanceData page' = attendanceData page
         \<and> pageError page' = Some (js ''Failed to save attendance update.'')
         \<and> coll' = coll)"
proof (intro conjI impI)
  assume ne: "filteredProfiles \<noteq> []"
  show "let r = handleBulkStatusUpdate monitorId selectedDate filteredProfiles outcome newStatus coll page
       in ((\<exists>err. outcome = Rejected err) \<longrightarrow>
             attendanceData (page_after r) = attendanceData page
             \<and> pageError (page_after r) = Some (js ''Failed to update all records. Please try again.'')
             \<and> attendance_after r = coll)
          \<and> (pageError (page_after r) = None \<longleftrightarrow> (\<exists>u. outcome = Resolved u))"
  proof (cases outcome)
    case (Resolved u)
    with handleBulkStatusUpdate_resolved [OF ne, of monitorId selectedDate u newStatus coll page]
    show ?thesis by (simp add: Let_def)
  next
    case (Rejected err)
    with handleBulkStatusUpdate_rejected [OF ne, of monitorId selectedDate err newStatus coll page]
    show ?thesis by (simp add: Let_def)
  qed
next
  show "let (page', coll') = handleStatusUpdate monitorId selectedDate (Rejected err') targetUserId newStatus coll page
      in attendanceData page' = attendanceData page
         \<and> pageError page' = Some (js ''Failed to save attendance update.'')
         \<and> coll' = coll"
    by (simp add: handleStatusUpdate_def Let_def)
qed


theorem failed_commit_restores_snapshot_witness:
  "[rowProfile 1, rowProfile 2] \<noteq> []
   \<and> attendanceData (page_after (handleBulkStatusUpdate (js ''m1'') (js ''2024-01-15'')
        [rowProfile 1, rowProfile 2] (Rejected (js ''unavailable'')) Late Map.empty markedPage))
      = attendanceData markedPage
   \<and> pageError (page_after (handleBulkStatusUpdate (js ''m1'') (js ''2024-01-15'')
        [rowProfile 1, rowProfile 2] (Rejected (js ''unavailable'')) Late Map.empty markedPage))
      = Some (js ''Failed to update all records. Please try again.'')
   \<and> pageError (page_after (handleBulkStatusUpdate (js ''m1'') (js ''2024-01-15'')
        [rowProfile 1, rowProfile 2] (Resolved ()) Late Map.empty markedPage)) = None"
proof -
  have ne: "[rowProfile 1, rowProfile 2] \<noteq> []" by simp
  from failed_commit_restores_snapshot
    [of "[rowProfile 1, rowProfile 2]" "(js ''m1'')" "(js ''2024-01-15'')" "Rejected (js ''unavailable'')"
      Late Map.empty markedPage] ne
  have r1: "attendanceData (page_after (handleBulkStatusUpdate (js ''m1'') (js ''2024-01-15'')
        [rowProfile 1, rowProfile 2] (Rejected (js ''unavailable'')) Late Map.empty markedPage))
      = attendanceData markedPage
   \<and> pageError (page_after (handleBulkStatusUpdate (js ''m1'') (js ''2024-01-15'')
        [rowProfile 1, rowProfile 2] (Rejected (js ''unavailable'')) Late Map.empty markedPage))
      = Some (js ''Failed to update all records. Please try again.'')"
    by (simp add: Let_def)
  from failed_commit_restores_snapshot
    [of "[rowProfile 1, rowProfile 2]" "(js ''m1'')" "(js ''2024-01-15'')" "Resolved ()"
      Late Map.empty markedPage] ne
  have r2: "pageError (page_after (handleBulkStatusUpdate (js ''m1'') (js ''2024-01-15'')
        [rowProfile 1, rowProfile 2] (Resolved ()) Late Map.empty markedPage)) = None"
    by (simp add: Let_def)
  from ne r1 r2 show ?thesis by simp
qed

lemma optimistic_update_visible:
  "attendanceData (page_after (handleBulkStatusUpdate (js ''m1'') (js ''2024-01-15'')
        [rowProfile 1, rowProfile 2] (Resolved ()) Late Map.empty markedPage)) (js ''s1'')
     = Some (optimisticRecord (js ''m1'') (js ''2024-01-15'') (js ''s1'') Late)"
  by (simp add: handleBulkStatusUpdate_def commitBatch_def bulkStep_def rowProfile_def
      markedPage_def digits.simps digit_def Let_def js_def)


section \<open>Broadcast\<close>


lemma addToBatch_foldl:
  "foldl (addToBatch nd) (batch, c) chunk = (batch @ map (withUserId nd) chunk, c + length chunk)"
  by (induction chunk arbitrary: batch c) (simp_all add: addToBatch_def)

lemma commitChunks_Rejected:
  "outcome k = Rejected err \<Longrightarrow>
     commitChunks nd outcome k (chunk # chunks) run =
       run\<lparr>count := count run + length chunk,
           batches := batches run @ [map (withUserId nd) chunk], failure := Some err\<rparr>"
  by (simp add: commitChunks.simps addToBatch_foldl)

lemma commitChunks_Resolved:
  "outcome k = Resolved u \<Longrightarrow>
     commitChunks nd outcome k (chunk # chunks) run =
       commitChunks nd outcome (Suc k) chunks
         (run\<lparr>created := created run @ map (withUserId nd) chunk,
              count := count run + length chunk,
              batches := batches run @ [map (withUserId nd) chunk]\<rparr>)"
  by (simp add: commitChunks.simps addToBatch_foldl)


lemma commitChunks_created:
  "failure (commitChunks nd outcome k chunks run) = None \<Longrightarrow>
     created (commitChunks nd outcome k chunks run)
        = created run @ map (withUserId nd) (concat chunks)
     \<and> count (commitChunks nd outcome k chunks run) = count run + length (concat chunks)"
proof (induction chunks arbitrary: k run)
  case Nil
  show ?case by simp
next
  case (Cons chunk chunks)
  show ?case
  proof (cases "outcome k")
    case (Rejected err)
    from commitChunks_Rejected [of outcome k, OF Rejected, of nd chunk chunks run]
    have "failure (commitChunks nd outcome k (chunk # chunks) run) = Some err" by simp
    with Cons.prems show ?thesis by simp
  next
    case (Resolved u)
    let ?run = "run\<lparr>created := created run @ map (withUserId nd) chunk,
                    count := count run + length chunk,
                    batches := batches run @ [map (withUserId nd) chunk]\<rparr>"
    note eq = commitChunks_Resolved [of outcome k, OF Resolved, of nd chunk chunks run]
    from Cons.prems have "failure (commitChunks nd outcome (Suc k) chunks ?run) = None"
      by (simp only: eq)
    from Cons.IH [OF this]
    have "created (commitChunks nd outcome (Suc k) chunks ?run)
            = created ?run @ map (withUserId nd) (concat chunks)"
      and "count (commitChunks nd outcome (Suc k) chunks ?run)
            = count ?run + length (concat chunks)"
      by simp_all
    then show ?thesis by (simp add: eq)
  qed
qed



lemma announcement_opened:
  "announcement (st\<lparr>isConfirmOpen := a, isSending := b, broadcastStatus := c\<rparr>) = announcement st"
  by (simp add: announcement_def)

lemma executeBroadcast_chunks:
  assumes "usersSnap env = Resolved userIds" "userIds \<noteq> []"
    and "chunkArray userIds 450 = Some chunks"
  shows "executeBroadcast env coll st =
    Some \<lparr>tab = (case failure (commitChunks (announcement st) (commitOutcome env) 0 chunks
                      \<lparr>created = [], count = 0, batches = [], failure = None\<rparr>) of
                  Some err \<Rightarrow>
                    broadcastFailed (st\<lparr>isConfirmOpen := False, isSending := True,
                                       broadcastStatus := None\<rparr>) err
                | None \<Rightarrow>
                    broadcastDone (st\<lparr>isConfirmOpen := False, isSending := True,
                                     broadcastStatus := None\<rparr>)
                      (count (commitChunks (announcement st) (commitOutcome env) 0 chunks
                         \<lparr>created = [], count = 0, batches = [], failure = None\<rparr>))),
          notifications = coll @ created (commitChunks (announcement st) (commitOutcome env) 0 chunks
                      \<lparr>created = [], count = 0, batches = [], failure = None\<rparr>),
          committed = batches (commitChunks (announcement st) (commitOutcome env) 0 chunks
                      \<lparr>created = [], count = 0, batches = [], failure = None\<rparr>)\<rparr>"
  using assms by (simp add: executeBroadcast_def Let_def announcement_opened split: option.splits)

lemma broadcastFailed_not_sent:
  "\<not> broadcastSent \<lparr>tab = broadcastFailed st err, notifications = ns, committed = bs\<rparr>"
  by (simp add: broadcastSent_def broadcastFailed_def)





text \<open>
  The batches of a broadcast that is reported as sent: none has more than 450
  writes, and together, in the order of their commits, they hold the documents
  created.
\<close>

lemma chunkArray_bounded:
  assumes "0 < sz"
  shows "\<exists>cs. chunkArray xs sz = Some cs \<and> list_all (\<lambda>c. length c \<le> sz) cs"
proof -
  from chunkArray_loop_returns [OF assms, of xs 0 "[]"]
  obtain cs where "chunkArray_loop xs sz 0 [] = Some ([] @ cs)"
    and "list_all (\<lambda>c. 0 < length c \<and> length c \<le> sz) cs"
    by blast
  then show ?thesis by (auto simp: chunkArray_def list_all_iff)
qed

lemma commitChunks_batches:
  "failure (commitChunks nd outcome k chunks run) = None \<Longrightarrow>
     batches (commitChunks nd outcome k chunks run)
        = batches run @ map (map (withUserId nd)) chunks"
proof (induction chunks arbitrary: k run)
  case Nil
  show ?case by simp
next
  case (Cons chunk chunks)
  show ?case
  proof (cases "outcome k")
    case (Rejected err)
    from commitChunks_Rejected [of outcome k, OF Rejected, of nd chunk chunks run]
    have "failure (commitChunks nd outcome k (chunk # chunks) run) = Some err" by simp
    with Cons.prems show ?thesis by simp
  next
    case (Resolved u)
    let ?run = "run\<lparr>created := created run @ map (withUserId nd) chunk,
                    count := count run + length chunk,
                    batches := batches run @ [map (withUserId nd) chunk]\<rparr>"
    note eq = commitChunks_Resolved [of outcome k, OF Resolved, of nd chunk chunks run]
    from Cons.prems have "failure (commitChunks nd outcome (Suc k) chunks ?run) = None"
      by (simp only: eq)
    from Cons.IH [OF this] show ?thesis by (simp add: eq)
  qed
qed

lemma broadcast_batches_at_most_450:
  assumes "usersSnap env = Resolved userIds" "userIds \<noteq> []"
    and "executeBroadcast env coll st = Some r" "broadcastSent r"
  shows "list_all (\<lambda>batch. length batch \<le> 450) (committed r)
         \<and> notifications r = coll @ concat (committed r)"
proof -
  from chunkArray_bounded [of 450 userIds]
  obtain chunks where ch: "chunkArray userIds 450 = Some chunks"
    and le: "list_all (\<lambda>c. length c \<le> 450) chunks"
    by auto
  let ?run = "commitChunks (announcement st) (commitOutcome env) 0 chunks
                \<lparr>created = [], count = 0, batches = [], failure = None\<rparr>"
  from executeBroadcast_chunks [OF assms(1,2) ch, of coll st] assms(3)
  have r: "r = \<lparr>tab = (case failure ?run of
                  Some err \<Rightarrow>
                    broadcastFailed (st\<lparr>isConfirmOpen := False, isSending := True,
                                       broadcastStatus := None\<rparr>) err
                | None \<Rightarrow>
                    broadcastDone (st\<lparr>isConfirmOpen := False, isSending := True,
                                     broadcastStatus := None\<rparr>) (count ?run)),
          notifications = coll @ created ?run, committed = batches ?run\<rparr>"
    by simp
  have f: "failure ?run = None"
  proof (cases "failure ?run")
    case None
    then show ?thesis .
  next
    case (Some err)
    with assms(4) r broadcastFailed_not_sent show ?thesis by simp
  qed
  from commitChunks_batches [OF f] have b: "batches ?run = map (map (withUserId (announcement st))) chunks"
    by simp
  from commitChunks_created [OF f] have c: "created ?run = map (withUserId (announcement st)) (concat chunks)"
    by simp
  from le have "list_all (\<lambda>batch. length batch \<le> 450) (map (map (withUserId (announcement st))) chunks)"
    by (simp add: list_all_iff)
  moreover have "concat (map (map (withUserId (announcement st))) chunks)
      = map (withUserId (announcement st)) (concat chunks)"
    by (simp add: map_concat)
  ultimately show ?thesis by (simp add: r b c)
qed


end
